theory Spec2Isabelle
  imports Main "HOL-Library.Word"
begin

section \<open>Shared types\<close>

text \<open>
  Go's \<open>int\<close> is a 64-bit two's complement integer on the platforms the reconciler is
  built for. The truncation denominator is modelled with that width, because it is doubled
  on every retry and the guard \<open>denominator <= 0\<close> reads it as a signed value.
  Error counts are lengths of slices held in memory, and sums of two of them; they stay far
  from the bounds of that width and are modelled as \<open>int\<close>.
\<close>

type_synonym go_int = "64 word"

text \<open>\<open>metav1.Time\<close>: a point in time, \<open>0\<close> being the zero time of \<open>IsZero\<close>.\<close>

type_synonym Time = nat

definition IsZero :: "Time \<Rightarrow> bool" where
  "IsZero t = (t = 0)"

text \<open>The errors of the API client, and the error values the modelled functions return.\<close>

datatype api_error = NotFound | RequestEntityTooLarge | ServerError string

datatype error =
    Errorf string
  | APIError api_error
  | APIServerError api_error string
  | Wrap error string

text \<open>
  Modelled from the spec: \<open>isRequestTooLargeError\<close> is called by the status setters but
  is not among the sources; the spec names the failure it detects
  "413 Request Entity Too Large".
\<close>

definition isRequestTooLargeError :: "api_error \<Rightarrow> bool" where
  "isRequestTooLargeError err = (err = RequestEntityTooLarge)"

text \<open>
  Modelled from the spec: \<open>configsync.ControllerNamespace\<close> is declared outside the
  sources; the controller's own namespace is \<open>config-management-system\<close>.
\<close>

definition ControllerNamespace :: string where
  "ControllerNamespace = ''config-management-system''"

section \<open>The status of a RootSync or RepoSync (\<open>v1beta1\<close>)\<close>

record ConfigSyncError =
  Code :: string
  ErrorMessage :: string

record ErrorSummary =
  TotalCount :: int
  Truncated :: bool
  ErrorCountAfterTruncation :: int

record GitStatus =
  GitRepo :: string
  GitRevision :: string
  GitBranch :: string
  GitDir :: string

record OciStatus =
  OciImage :: string
  OciDir :: string

record HelmStatus =
  HelmRepo :: string
  HelmChart :: string
  HelmVersion :: string

datatype ErrorSource = SourceError | RenderingError | SyncError

text \<open>
  \<open>SourceStatus\<close> and \<open>SyncStatus\<close> have the same fields; \<open>RenderingStatus\<close> has a
  \<open>Message\<close> in addition. \<open>ErrorSummary\<close> is a pointer in Go, hence an option.
\<close>

record SourceStatus =
  Git :: "GitStatus option"
  Oci :: "OciStatus option"
  Helm :: "HelmStatus option"
  Commit :: string
  LastUpdate :: Time
  Errors :: "ConfigSyncError list"
  ErrorSummary :: "ErrorSummary option"

type_synonym SyncStatus = SourceStatus

record RenderingStatus = SourceStatus +
  Message :: string

datatype ConditionType = Reconciling | Stalled | Syncing

datatype ConditionStatus = ConditionTrue | ConditionFalse | ConditionUnknown

record Condition =
  Type :: ConditionType
  CondStatus :: ConditionStatus
  Reason :: string
  CondMessage :: string

record Status =
  ObservedGeneration :: int
  Reconciler :: string
  LastSyncedCommit :: string
  LastCommit :: string
  Source :: SourceStatus
  Rendering :: RenderingStatus
  Sync :: SyncStatus
  Conditions :: "Condition list"

text \<open>A RootSync or RepoSync object: the metadata the modelled code reads, and the status.\<close>

record RSync =
  Namespace :: string
  Name :: string
  Generation :: int
  ResourceVersion :: string
  DeletionTimestamp :: Time
  Status :: Status

section \<open>The parser's status setters (package \<open>parse\<close>: the root parser and \<open>namespace.go\<close>)\<close>

text \<open>
  The root parser and the namespace parser have the same setters, word for word but for the
  kind of the object and the messages of the errors: each setter is modelled once, for a
  parser of either scope.
\<close>

datatype SourceType = GitSource | OciSource | HelmSource | UnknownSource

datatype Scope = RootReconciler | NamespaceScope string

text \<open>
  The in-memory statuses the parser hands to the setters. \<open>errs\<close> holds the result of
  \<open>status.ToCSE\<close> on the collected errors.
\<close>

record sourceStatus =
  commit :: string
  errs :: "ConfigSyncError list"
  lastUpdate :: Time

record renderingStatus = sourceStatus +
  message :: string

record syncStatus = sourceStatus +
  syncing :: bool

text \<open>
  A Kubernetes object as far as \<open>addImplicitNamespaces\<close> reads or writes it.
\<close>

datatype GroupKind = NamespaceKind | OtherKind string

record FileObject =
  ObjKind :: GroupKind
  ObjName :: string
  ObjNamespace :: string
  ObjAnnotations :: "(string \<times> string) list"

text \<open>
  The API client (\<open>client.Client\<close>) as the modelled code uses it: \<open>Get\<close> is the result
  of \<open>client.Get\<close> on the RootSync or RepoSync the caller names, \<open>Status_Update\<close> the
  answer of \<open>client.Status().Update\<close> to the object sent, and \<open>Get_Namespace\<close> the
  result of \<open>client.Get\<close> on the Namespace of a given name. A setter that retries
  fetches the object again at each attempt; no other writer is modelled, so each attempt
  is answered with the same object.
\<close>

record Client =
  Get :: "api_error + RSync"
  Status_Update :: "RSync \<Rightarrow> api_error option"
  Get_Namespace :: "string \<Rightarrow> api_error + FileObject"

text \<open>
  The parser (\<open>root\<close> or \<open>namespace\<close>, both embedding \<open>opts\<close>): its options, its
  client, and what it calls outside the sources.
  \<^item> \<open>SetSyncing\<close> stands for \<open>rootsync.SetSyncing\<close> and \<open>reposync.SetSyncing\<close>,
    which write the \<open>Syncing\<close> condition into the conditions of the object.
  \<^item> \<open>cmp_Equal\<close> stands for \<open>cmp.Equal\<close> under \<open>compare.IgnoreTimestampUpdates\<close>.
  \<^item> \<open>IsManager\<close> stands for \<open>diff.IsManager(p.scope, p.syncName, _)\<close>.
\<close>

record Parser =
  scope :: Scope
  syncName :: string
  SourceType :: SourceType
  SourceRepo :: string
  SourceRev :: string
  SourceBranch :: string
  SyncDir :: string
  client :: Client
  SetSyncing :: "Condition list \<Rightarrow> bool \<Rightarrow> string \<Rightarrow> string \<Rightarrow> string \<Rightarrow>
                 ErrorSource list \<Rightarrow> ErrorSummary \<Rightarrow> Time \<Rightarrow> Condition list"
  cmp_Equal :: "Status \<Rightarrow> Status \<Rightarrow> bool"
  IsManager :: "FileObject \<Rightarrow> bool"

definition kindName :: "Scope \<Rightarrow> string" where
  "kindName s = (case s of RootReconciler \<Rightarrow> ''RootSync'' | NamespaceScope _ \<Rightarrow> ''RepoSync'')"

text \<open>
  The result of a setter: the error it returns (\<open>None\<close> for \<open>nil\<close>) and the objects it
  passed to \<open>client.Status().Update\<close>, in call order.
\<close>

type_synonym result = "error option \<times> RSync list"

fun sent :: "RSync \<Rightarrow> result \<Rightarrow> result" where
  "sent rs (e, ws) = (e, rs # ws)"

text \<open>
  \<open>cse[0 : len(cse)/denominator]\<close>. Every caller has checked \<open>denominator > 0\<close> before.
  At a denominator that is not positive Go would divide by zero or slice out of range; the
  guard of the callers makes that unreachable, and the value here is of no account.
\<close>

definition truncateErrors :: "ConfigSyncError list \<Rightarrow> go_int \<Rightarrow> ConfigSyncError list" where
  "truncateErrors cse denominator = take (nat (int (length cse) div sint denominator)) cse"

definition setLastCommit :: "Status \<Rightarrow> string \<Rightarrow> Status" where
  "setLastCommit syncStatus c = syncStatus\<lparr>LastCommit := c\<rparr>"

definition setSourceStatusFields :: "SourceStatus \<Rightarrow> Parser \<Rightarrow> sourceStatus \<Rightarrow> go_int \<Rightarrow> SourceStatus" where
  "setSourceStatusFields source p newStatus denominator =
    (let cse = errs newStatus;
         source = source\<lparr>Commit := commit newStatus\<rparr>;
         source = (case SourceType p of
             GitSource \<Rightarrow> source\<lparr>
               Git := Some \<lparr>GitRepo = SourceRepo p, GitRevision = SourceRev p,
                            GitBranch = SourceBranch p, GitDir = SyncDir p\<rparr>,
               Oci := None, Helm := None\<rparr>
           | OciSource \<Rightarrow> source\<lparr>
               Oci := Some \<lparr>OciImage = SourceRepo p, OciDir = SyncDir p\<rparr>,
               Git := None, Helm := None\<rparr>
           | HelmSource \<Rightarrow> source\<lparr>
               Helm := Some \<lparr>HelmRepo = SourceRepo p, HelmChart = SyncDir p,
                              HelmVersion = SourceRev p\<rparr>,
               Git := None, Oci := None\<rparr>
           | UnknownSource \<Rightarrow> source);
         errorSummary = \<lparr>TotalCount = int (length cse), Truncated = (denominator \<noteq> 1),
                          ErrorCountAfterTruncation = int (length cse) div sint denominator\<rparr>
     in source\<lparr>Errors := truncateErrors cse denominator,
                ErrorSummary := Some errorSummary,
                LastUpdate := lastUpdate newStatus\<rparr>)"

definition setRenderingStatusFields :: "RenderingStatus \<Rightarrow> Parser \<Rightarrow> renderingStatus \<Rightarrow> go_int \<Rightarrow> RenderingStatus" where
  "setRenderingStatusFields rendering p newStatus denominator =
    (let cse = errs newStatus;
         rendering = rendering\<lparr>Commit := commit newStatus\<rparr>;
         rendering = (case SourceType p of
             GitSource \<Rightarrow> rendering\<lparr>
               Git := Some \<lparr>GitRepo = SourceRepo p, GitRevision = SourceRev p,
                            GitBranch = SourceBranch p, GitDir = SyncDir p\<rparr>,
               Oci := None, Helm := None\<rparr>
           | OciSource \<Rightarrow> rendering\<lparr>
               Oci := Some \<lparr>OciImage = SourceRepo p, OciDir = SyncDir p\<rparr>,
               Git := None, Helm := None\<rparr>
           | HelmSource \<Rightarrow> rendering\<lparr>
               Helm := Some \<lparr>HelmRepo = SourceRepo p, HelmChart = SyncDir p,
                              HelmVersion = SourceRev p\<rparr>,
               Git := None, Oci := None\<rparr>
           | UnknownSource \<Rightarrow> rendering);
         rendering = rendering\<lparr>Message := message newStatus\<rparr>;
         errorSummary = \<lparr>TotalCount = int (length cse), Truncated = (denominator \<noteq> 1),
                          ErrorCountAfterTruncation = 0\<rparr>
     in rendering\<lparr>Errors := truncateErrors cse denominator,
                   ErrorSummary := Some errorSummary,
                   LastUpdate := lastUpdate newStatus\<rparr>)"

definition setSyncStatusErrors :: "Status \<Rightarrow> ConfigSyncError list \<Rightarrow> go_int \<Rightarrow> Status" where
  "setSyncStatusErrors syncStatus cse denominator =
     syncStatus\<lparr>Sync := (Sync syncStatus)\<lparr>
       ErrorSummary := Some \<lparr>TotalCount = int (length cse), Truncated = (denominator \<noteq> 1),
                              ErrorCountAfterTruncation = 0\<rparr>,
       Errors := truncateErrors cse denominator\<rparr>\<rparr>"

definition setSyncStatusFields :: "Status \<Rightarrow> syncStatus \<Rightarrow> go_int \<Rightarrow> Status" where
  "setSyncStatusFields st newStatus denominator =
    (let cse = errs newStatus;
         st = st\<lparr>Sync := (Sync st)\<lparr>Commit := commit newStatus,
                                     Git := Git (Source st),
                                     Oci := Oci (Source st),
                                     Helm := Helm (Source st)\<rparr>\<rparr>;
         st = setSyncStatusErrors st cse denominator
     in st\<lparr>Sync := (Sync st)\<lparr>LastUpdate := lastUpdate newStatus\<rparr>\<rparr>)"

text \<open>The loop body of \<open>summarizeErrors\<close>: a \<open>nil\<close> summary is skipped.\<close>

fun addSummary :: "ErrorSummary \<Rightarrow> ErrorSummary option \<Rightarrow> ErrorSummary" where
  "addSummary errorSummary None = errorSummary"
| "addSummary errorSummary (Some summary) =
     errorSummary\<lparr>TotalCount := TotalCount errorSummary + TotalCount summary,
                  ErrorCountAfterTruncation :=
                    ErrorCountAfterTruncation errorSummary + ErrorCountAfterTruncation summary,
                  Truncated := (if Truncated summary then True else Truncated errorSummary)\<rparr>"

definition summarizeErrors :: "SourceStatus \<Rightarrow> SyncStatus \<Rightarrow> ErrorSource list \<times> ErrorSummary" where
  "summarizeErrors sourceStatus syncStatus =
    (let errorSources = (if length (Errors sourceStatus) > 0 then [SourceError] else [])
                      @ (if length (Errors syncStatus) > 0 then [SyncError] else []);
         errorSummary = foldl addSummary
           \<lparr>TotalCount = 0, Truncated = False, ErrorCountAfterTruncation = 0\<rparr>
           [ErrorSummary sourceStatus, ErrorSummary syncStatus]
     in (errorSources, errorSummary))"

text \<open>
  Reading \<open>rs.Status.Source.ErrorSummary\<close> right after the fields were set: the pointer is
  never \<open>nil\<close> there (a \<open>nil\<close> would panic), so the \<open>None\<close> case is not reached.
\<close>

definition deref :: "ErrorSummary option \<Rightarrow> ErrorSummary" where
  "deref s = (case s of Some es \<Rightarrow> es
                      | None \<Rightarrow> \<lparr>TotalCount = 0, Truncated = False, ErrorCountAfterTruncation = 0\<rparr>)"

text \<open>
  The mutation each setter applies to the object it fetched, from \<open>setLastCommit\<close> to
  \<open>SetSyncing\<close>: the part of \<open>setSourceStatusWithRetries\<close>,
  \<open>setRenderingStatusWithRetires\<close> and \<open>setSyncStatusWithRetries\<close> between the Get and
  the comparison with the fetched copy.
\<close>

definition sourceStatusMutation :: "Parser \<Rightarrow> sourceStatus \<Rightarrow> go_int \<Rightarrow> RSync \<Rightarrow> RSync" where
  "sourceStatusMutation p newStatus denominator rs =
    (let st = setLastCommit (Status rs) (commit newStatus);
         st = st\<lparr>Source := setSourceStatusFields (Source st) p newStatus denominator\<rparr>;
         continueSyncing = (TotalCount (deref (ErrorSummary (Source st))) = 0);
         errorSource = (if length (Errors (Source st)) > 0 then [SourceError] else []);
         st = st\<lparr>Conditions := SetSyncing p (Conditions st) continueSyncing ''Source'' ''Source''
                   (commit newStatus) errorSource (deref (ErrorSummary (Source st)))
                   (lastUpdate newStatus)\<rparr>
     in rs\<lparr>Status := st\<rparr>)"

definition renderingStatusMutation :: "Parser \<Rightarrow> renderingStatus \<Rightarrow> go_int \<Rightarrow> RSync \<Rightarrow> RSync" where
  "renderingStatusMutation p newStatus denominator rs =
    (let st = setLastCommit (Status rs) (commit newStatus);
         st = st\<lparr>Rendering := setRenderingStatusFields (Rendering st) p newStatus denominator\<rparr>;
         continueSyncing = (TotalCount (deref (ErrorSummary (Rendering st))) = 0);
         errorSource = (if length (Errors (Rendering st)) > 0 then [RenderingError] else []);
         st = st\<lparr>Conditions := SetSyncing p (Conditions st) continueSyncing ''Rendering''
                   (message newStatus) (commit newStatus) errorSource
                   (deref (ErrorSummary (Rendering st))) (lastUpdate newStatus)\<rparr>
     in rs\<lparr>Status := st\<rparr>)"

definition syncStatusMutation :: "Parser \<Rightarrow> syncStatus \<Rightarrow> go_int \<Rightarrow> RSync \<Rightarrow> RSync" where
  "syncStatusMutation p newStatus denominator rs =
    (let st = setLastCommit (Status rs) (commit newStatus);
         st = setSyncStatusFields st newStatus denominator;
         (errorSources, errorSummary) = summarizeErrors (Source st) (Sync st);
         st = (if syncing newStatus
               then st\<lparr>Conditions := SetSyncing p (Conditions st) True ''Sync'' ''Syncing''
                          (Commit (Sync st)) errorSources errorSummary (LastUpdate (Sync st))\<rparr>
               else
                 (let st = (if TotalCount errorSummary = 0
                            then st\<lparr>LastSyncedCommit := Commit (Sync st)\<rparr> else st)
                  in st\<lparr>Conditions := SetSyncing p (Conditions st) False ''Sync''
                          ''Sync Completed'' (Commit (Sync st)) errorSources errorSummary
                          (LastUpdate (Sync st))\<rparr>))
     in rs\<lparr>Status := st\<rparr>)"

text \<open>
  The measure of the retries: a positive denominator that is doubled either stays positive
  and grows, or wraps around to a value the guard rejects.
\<close>

definition retries_left :: "go_int \<Rightarrow> nat" where
  "retries_left d = (if sint d \<le> 0 then 0 else nat (2 ^ 63 - sint d))"

function setSourceStatusWithRetries :: "Parser \<Rightarrow> sourceStatus \<Rightarrow> go_int \<Rightarrow> result" where
  "setSourceStatusWithRetries p newStatus denominator =
    (if sint denominator \<le> 0
     then (Some (Errorf ''The denominator must be a positive number''), [])
     else case Get (client p) of
         Inl err \<Rightarrow>
           (Some (APIServerError err (''failed to get '' @ kindName (scope p) @ '' for parser'')), [])
       | Inr currentRS \<Rightarrow>
          (let rs = sourceStatusMutation p newStatus denominator currentRS in
           if \<not> IsZero (LastUpdate (Source (Status currentRS)))
              \<and> cmp_Equal p (Status currentRS) (Status rs)
           then (None, [])
           else case Status_Update (client p) rs of
               None \<Rightarrow> (None, [rs])
             | Some err \<Rightarrow>
                 if isRequestTooLargeError err
                 then sent rs (setSourceStatusWithRetries p newStatus (denominator * 2))
                 else (Some (APIServerError err (''failed to update '' @ kindName (scope p)
                         @ '' source status from parser'')), [rs])))"
  by pat_completeness auto

function setRenderingStatusWithRetires :: "Parser \<Rightarrow> renderingStatus \<Rightarrow> go_int \<Rightarrow> result" where
  "setRenderingStatusWithRetires p newStatus denominator =
    (if sint denominator \<le> 0
     then (Some (Errorf ''The denominator must be a positive number''), [])
     else case Get (client p) of
         Inl err \<Rightarrow>
           (Some (APIServerError err (''failed to get '' @ kindName (scope p) @ '' for parser'')), [])
       | Inr currentRS \<Rightarrow>
          (let rs = renderingStatusMutation p newStatus denominator currentRS in
           if \<not> IsZero (LastUpdate (Rendering (Status currentRS)))
              \<and> cmp_Equal p (Status currentRS) (Status rs)
           then (None, [])
           else case Status_Update (client p) rs of
               None \<Rightarrow> (None, [rs])
             | Some err \<Rightarrow>
                 if isRequestTooLargeError err
                 then sent rs (setRenderingStatusWithRetires p newStatus (denominator * 2))
                 else (Some (APIServerError err (''failed to update '' @ kindName (scope p)
                         @ '' rendering status from parser'')), [rs])))"
  by pat_completeness auto

function setSyncStatusWithRetries :: "Parser \<Rightarrow> syncStatus \<Rightarrow> go_int \<Rightarrow> result" where
  "setSyncStatusWithRetries p newStatus denominator =
    (if sint denominator \<le> 0
     then (Some (Errorf ''The denominator must be a positive number''), [])
     else case Get (client p) of
         Inl err \<Rightarrow>
           (Some (APIServerError err
              (case scope p of
                 RootReconciler \<Rightarrow> ''failed to get RootSync''
               | NamespaceScope ns \<Rightarrow>
                   ''failed to get the RepoSync object for the '' @ ns @ '' namespace'')), [])
       | Inr currentRS \<Rightarrow>
          (let rs = syncStatusMutation p newStatus denominator currentRS in
           if \<not> IsZero (LastUpdate (Sync (Status currentRS)))
              \<and> cmp_Equal p (Status currentRS) (Status rs)
           then (None, [])
           else case Status_Update (client p) rs of
               None \<Rightarrow> (None, [rs])
             | Some err \<Rightarrow>
                 if isRequestTooLargeError err
                 then sent rs (setSyncStatusWithRetries p newStatus (denominator * 2))
                 else (Some (APIServerError err
                   (case scope p of
                      RootReconciler \<Rightarrow> ''failed to update RootSync sync status''
                    | NamespaceScope ns \<Rightarrow>
                        ''failed to update the RepoSync sync status for the '' @ ns
                        @ '' namespace'')), [rs])))"
  by pat_completeness auto

section \<open>Implicit namespaces and remediator conflicts (package \<open>parse\<close>, the root parser)\<close>








text \<open>
  A management conflict reported by the remediator (\<open>status.ManagementConflictError\<close>), as
  \<open>prependRootSyncRemediatorStatus\<close> reads it: the results of \<open>ToCSE()\<close> and of
  \<open>CurrentManagerError().ToCSE()\<close>.
\<close>

record ManagementConflictError =
  ToCSE :: ConfigSyncError
  CurrentManagerError_ToCSE :: ConfigSyncError

text \<open>
  The inner loop of \<open>prependRootSyncRemediatorStatus\<close>, over the sync errors of the
  RootSync. \<open>code\<close> is \<open>status.ManagementConflictErrorCode\<close>, a constant declared outside
  the sources.
\<close>

fun errorFound :: "string \<Rightarrow> ConfigSyncError \<Rightarrow> ConfigSyncError \<Rightarrow> ConfigSyncError list \<Rightarrow> bool" where
  "errorFound code conflictCSEError conflictPairCSEError [] = False"
| "errorFound code conflictCSEError conflictPairCSEError (e # es) =
     (if Code e = code \<and> (ErrorMessage e = ErrorMessage conflictCSEError
                            \<or> ErrorMessage e = ErrorMessage conflictPairCSEError)
      then True
      else errorFound code conflictCSEError conflictPairCSEError es)"

text \<open>The outer loop, appending to \<open>errs\<close>.\<close>

fun newConflictErrors ::
  "string \<Rightarrow> ConfigSyncError list \<Rightarrow> ManagementConflictError list \<Rightarrow> ConfigSyncError list
     \<Rightarrow> ConfigSyncError list" where
  "newConflictErrors code syncErrors [] errs' = errs'"
| "newConflictErrors code syncErrors (conflictErr # conflictErrs) errs' =
     (let conflictCSEError = ToCSE conflictErr;
          conflictPairCSEError = CurrentManagerError_ToCSE conflictErr
      in newConflictErrors code syncErrors conflictErrs
           (if \<not> errorFound code conflictCSEError conflictPairCSEError syncErrors
            then errs' @ [conflictCSEError] else errs'))"

text \<open>
  The object that \<open>prependRootSyncRemediatorStatus\<close> sends: the new conflicts in front of
  the sync errors, truncated, and \<open>LastUpdate\<close> set to \<open>metav1.Now()\<close> (\<open>now\<close>). The
  attempts of one call read the clock one after the other; the time that passes between
  them is not modelled, and \<open>now\<close> stands for each reading.
\<close>

definition prependedStatus :: "RSync \<Rightarrow> ConfigSyncError list \<Rightarrow> Time \<Rightarrow> go_int \<Rightarrow> RSync" where
  "prependedStatus rs errs' now denominator =
     (let errs' = errs' @ Errors (Sync (Status rs));
          st = setSyncStatusErrors (Status rs) errs' denominator
      in rs\<lparr>Status := st\<lparr>Sync := (Sync st)\<lparr>LastUpdate := now\<rparr>\<rparr>\<rparr>)"

function prependRootSyncRemediatorStatus ::
  "Client \<Rightarrow> string \<Rightarrow> Time \<Rightarrow> string \<Rightarrow> ManagementConflictError list \<Rightarrow> go_int \<Rightarrow> result" where
  "prependRootSyncRemediatorStatus cl code now name conflictErrs denominator =
    (if sint denominator \<le> 0
     then (Some (Errorf ''The denominator must be a positive number''), [])
     else case Get cl of
         Inl err \<Rightarrow> (Some (APIServerError err (''failed to get RootSync: '' @ name)), [])
       | Inr rs \<Rightarrow>
          (let errs' = newConflictErrors code (Errors (Sync (Status rs))) conflictErrs [] in
           if length errs' = 0 then (None, [])
           else
            (let rs = prependedStatus rs errs' now denominator in
             case Status_Update cl rs of
               None \<Rightarrow> (None, [rs])
             | Some err \<Rightarrow>
                 if isRequestTooLargeError err
                 then sent rs (prependRootSyncRemediatorStatus cl code now name conflictErrs
                                 (denominator * 2))
                 else (Some (APIServerError err ''failed to update RootSync sync status''), [rs]))))"
  by pat_completeness auto

section \<open>The RepoSync controller (\<open>pkg/reconcilermanager/controllers/reposync_controller.go\<close>)\<close>

text \<open>\<open>err.Error()\<close>, the text of an error.\<close>

fun api_error_text :: "api_error \<Rightarrow> string" where
  "api_error_text NotFound = ''not found''"
| "api_error_text RequestEntityTooLarge = ''request entity too large''"
| "api_error_text (ServerError s) = s"

fun Error :: "error \<Rightarrow> string" where
  "Error (Errorf s) = s"
| "Error (APIError e) = api_error_text e"
| "Error (APIServerError e s) = s @ '': '' @ api_error_text e"
| "Error (Wrap e s) = s @ '': '' @ Error e"

text \<open>
  Modelled from the spec: the helpers of \<open>pkg/reposync\<close> that write conditions are not
  among the sources. A permanent error writes a \<open>Stalled=True\<close> condition;
  \<open>SetStalled\<close> stores it with the reason and the text of the error, \<open>SetReconciling\<close>
  stores \<open>Reconciling=True\<close> with a reason and a message, \<open>ClearCondition\<close> removes the
  condition of a type. There is one condition of each type.
\<close>

definition setCondition :: "Condition \<Rightarrow> Condition list \<Rightarrow> Condition list" where
  "setCondition c cs = filter (\<lambda>x. Type x \<noteq> Type c) cs @ [c]"

definition SetStalled :: "RSync \<Rightarrow> string \<Rightarrow> error \<Rightarrow> RSync" where
  "SetStalled rs reason err =
     rs\<lparr>Status := (Status rs)\<lparr>Conditions :=
       setCondition \<lparr>Type = Stalled, CondStatus = ConditionTrue, Reason = reason,
                     CondMessage = Error err\<rparr> (Conditions (Status rs))\<rparr>\<rparr>"

definition SetReconciling :: "RSync \<Rightarrow> string \<Rightarrow> string \<Rightarrow> RSync" where
  "SetReconciling rs reason msg =
     rs\<lparr>Status := (Status rs)\<lparr>Conditions :=
       setCondition \<lparr>Type = Reconciling, CondStatus = ConditionTrue, Reason = reason,
                     CondMessage = msg\<rparr> (Conditions (Status rs))\<rparr>\<rparr>"

definition ClearCondition :: "RSync \<Rightarrow> ConditionType \<Rightarrow> RSync" where
  "ClearCondition rs t =
     rs\<lparr>Status := (Status rs)\<lparr>Conditions :=
       filter (\<lambda>x. Type x \<noteq> t) (Conditions (Status rs))\<rparr>\<rparr>"

text \<open>The reconciler Deployment, and what \<open>kstatus.Compute\<close> and the upsert say of it.\<close>

record Deployment =
  DeploymentResourceVersion :: string

datatype OperationResult = OperationResultNone | OperationResultCreated | OperationResultUpdated

datatype kstatus = InProgressStatus | FailedStatus | CurrentStatus | OtherStatus string

fun kstatus_text :: "kstatus \<Rightarrow> string" where
  "kstatus_text InProgressStatus = ''InProgress''"
| "kstatus_text FailedStatus = ''Failed''"
| "kstatus_text CurrentStatus = ''Current''"
| "kstatus_text (OtherStatus s) = s"

type_synonym NamespacedName = "string \<times> string"

text \<open>
  The namespace of the reconcilers, \<open>v1.NSConfigManagementSystem\<close>, declared outside the
  sources; it is the controller namespace.
\<close>

definition NSConfigManagementSystem :: string where
  "NSConfigManagementSystem = ControllerNamespace"

text \<open>
  The controller: the RepoSyncs it has reconciled, and the resourceVersion recorded for each
  object at its last status update.
\<close>

record RepoSyncReconciler =
  repoSyncs :: "NamespacedName set"
  lastReconciledResourceVersions :: "NamespacedName \<rightharpoonup> string"

text \<open>
  Modelled from the spec: the three accessors of the recorded resourceVersions belong to
  \<open>reconcilerBase\<close>, which is not among the sources. The manager records the
  \<open>resourceVersion\<close> it last reconciled, and compares the one it observes with it.
\<close>

definition isLastReconciled :: "RepoSyncReconciler \<Rightarrow> NamespacedName \<Rightarrow> string \<Rightarrow> bool" where
  "isLastReconciled r nn resourceVersion =
     (case lastReconciledResourceVersions r nn of
        None \<Rightarrow> False
      | Some lastReconciled \<Rightarrow> resourceVersion = lastReconciled)"

definition setLastReconciled :: "RepoSyncReconciler \<Rightarrow> NamespacedName \<Rightarrow> string \<Rightarrow> RepoSyncReconciler" where
  "setLastReconciled r nn resourceVersion =
     r\<lparr>lastReconciledResourceVersions := (lastReconciledResourceVersions r)(nn \<mapsto> resourceVersion)\<rparr>"

definition clearLastReconciled :: "RepoSyncReconciler \<Rightarrow> NamespacedName \<Rightarrow> RepoSyncReconciler" where
  "clearLastReconciled r nn =
     r\<lparr>lastReconciledResourceVersions := (lastReconciledResourceVersions r)(nn := None)\<rparr>"

text \<open>
  What \<open>Reconcile\<close> calls and this theory does not look into: the API client, the
  comparison of two statuses (\<open>cmp.Equal\<close> under \<open>compare.IgnoreTimestampUpdates\<close>), the
  name of the reconciler (\<open>core.NsReconcilerName\<close>), \<open>validation.IsDNS1123Subdomain\<close>, the
  validation of the spec, the upserts of the owned objects, each with the error it returns
  for the RepoSync at hand, and \<open>kstatus.Compute\<close>.
  \<^item> \<open>mgr_List\<close> is the error of \<open>client.List\<close> of the RepoSyncs of a namespace, whose
    result \<open>cleanupNSControllerResources\<close> does not read;
  \<^item> \<open>mgr_Delete\<close> is the error of \<open>client.Delete\<close> of the object of a kind and a key;
  \<^item> \<open>deleteConfigMaps\<close>, \<open>deleteRoleBinding\<close> and \<open>deleteSecrets\<close>, which read and
    rewrite objects of the cluster that are not modelled, each with the error it returns
    for the reconciler, and the RepoSync, at hand.
\<close>

record ManagerEnv =
  mgr_Get :: "NamespacedName \<Rightarrow> api_error + RSync"
  mgr_Status_Update :: "RSync \<Rightarrow> api_error option"
  mgr_cmp_Equal :: "Status \<Rightarrow> Status \<Rightarrow> bool"
  NsReconcilerName :: "string \<Rightarrow> string \<Rightarrow> string"
  IsDNS1123Subdomain :: "string \<Rightarrow> string list"
  mgr_List :: "string \<Rightarrow> api_error option"
  mgr_Delete :: "string \<Rightarrow> NamespacedName \<Rightarrow> api_error option"
  deleteConfigMaps :: "NamespacedName \<Rightarrow> error option"
  deleteRoleBinding :: "NamespacedName \<Rightarrow> NamespacedName \<Rightarrow> error option"
  deleteSecrets :: "NamespacedName \<Rightarrow> error option"
  validateSpec :: "RSync \<Rightarrow> string \<Rightarrow> error option"
  upsertAuthSecret :: "RSync \<Rightarrow> error option"
  upsertCACertSecret :: "RSync \<Rightarrow> error option"
  upsertServiceAccount :: "RSync \<Rightarrow> error option"
  upsertRoleBinding :: "RSync \<Rightarrow> error option"
  NotificationEnabled :: "RSync \<Rightarrow> error + bool"
  upsertNotificationCR :: "RSync \<Rightarrow> error option"
  deleteNotificationCR :: "NamespacedName \<Rightarrow> api_error option"
  upsertDeployment :: "RSync \<Rightarrow> bool \<Rightarrow> error + (Deployment \<times> OperationResult)"
  deployment :: "string \<Rightarrow> error + Deployment"
  kstatus_Compute :: "Deployment \<Rightarrow> error + (kstatus \<times> string)"

text \<open>What \<open>Reconcile\<close> does to the cluster, in order.\<close>

datatype action =
    StatusUpdate RSync
  | CleanupNSControllerResources
  | UpsertAuthSecret
  | UpsertCACertSecret
  | UpsertServiceAccount
  | UpsertRoleBinding
  | UpsertNotificationCR
  | DeleteNotificationCR
  | UpsertDeployment
  | GetDeployment

type_synonym outcome = "error option \<times> RepoSyncReconciler \<times> action list"

definition validateNamespaceName :: "string \<Rightarrow> error option" where
  "validateNamespaceName namespaceName =
     (if namespaceName = ControllerNamespace
      then Some (Errorf (''RepoSync objects are not allowed in the '' @ ControllerNamespace
                         @ '' namespace''))
      else None)"

text \<open>
  \<open>updateStatus\<close> returns whether it updated and the error of the update; the model adds
  the controller, which records the resourceVersion the object had before the update, and
  the update sent.
\<close>

definition updateStatus ::
  "ManagerEnv \<Rightarrow> RepoSyncReconciler \<Rightarrow> RSync \<Rightarrow> RSync
     \<Rightarrow> (bool \<times> error option) \<times> RepoSyncReconciler \<times> action list" where
  "updateStatus env r currentRS rs =
    (let rs = rs\<lparr>Status := (Status rs)\<lparr>ObservedGeneration := Generation rs\<rparr>\<rparr> in
     if mgr_cmp_Equal env (Status currentRS) (Status rs) then ((False, None), r, [])
     else
      (let resourceVersion = ResourceVersion rs in
       case mgr_Status_Update env rs of
         Some err \<Rightarrow> ((False, Some (APIError err)), r, [StatusUpdate rs])
       | None \<Rightarrow> ((True, None),
                   setLastReconciled r (Namespace rs, Name rs) resourceVersion,
                   [StatusUpdate rs])))"

text \<open>
  The two ways \<open>Reconcile\<close> leaves after a failure, both after \<open>SetStalled\<close> and
  \<open>updateStatus\<close>: a validation error returns the error of the status update; a failed
  upsert returns its own error, wrapped, whatever the status update did.
\<close>

definition stalledByValidation ::
  "ManagerEnv \<Rightarrow> RepoSyncReconciler \<Rightarrow> RSync \<Rightarrow> RSync \<Rightarrow> error \<Rightarrow> action list \<Rightarrow> outcome" where
  "stalledByValidation env r currentRS rs err done =
    (let rs = SetStalled rs ''Validation'' err;
         ((_, updateErr), r, a) = updateStatus env r currentRS rs
     in (updateErr, r, done @ a))"

definition stalledBy ::
  "ManagerEnv \<Rightarrow> RepoSyncReconciler \<Rightarrow> RSync \<Rightarrow> RSync \<Rightarrow> string \<Rightarrow> error \<Rightarrow> error
     \<Rightarrow> action list \<Rightarrow> outcome" where
  "stalledBy env r currentRS rs reason err returned done =
    (let rs = SetStalled rs reason err;
         (_, r, a) = updateStatus env r currentRS rs
     in (Some returned, r, done @ a))"

text \<open>The end of \<open>Reconcile\<close>, once the Deployment is upserted and at hand.\<close>

definition reconcileDeploymentStatus ::
  "ManagerEnv \<Rightarrow> RepoSyncReconciler \<Rightarrow> RSync \<Rightarrow> RSync \<Rightarrow> Deployment \<Rightarrow> action list \<Rightarrow> outcome" where
  "reconcileDeploymentStatus env r currentRS rs deployObj done =
    (case kstatus_Compute env deployObj of
       Inl err \<Rightarrow> stalledBy env r currentRS rs ''Deployment'' err err done
     | Inr (status, msg) \<Rightarrow>
        (let rs = (case status of
                     InProgressStatus \<Rightarrow>
                       ClearCondition (SetReconciling rs ''Deployment'' msg) Stalled
                   | FailedStatus \<Rightarrow>
                       SetStalled (SetReconciling rs ''Deployment'' msg) ''Deployment''
                         (Errorf (kstatus_text status))
                   | CurrentStatus \<Rightarrow>
                       ClearCondition (ClearCondition rs Reconciling) Stalled
                   | OtherStatus _ \<Rightarrow> rs);
             ((updated, err), r, a) = updateStatus env r currentRS rs
         in (err, r, done @ a)))"

text \<open>The upserts of \<open>Reconcile\<close>, from the auth secret to the Deployment.\<close>

definition reconcileOwnedObjects ::
  "ManagerEnv \<Rightarrow> RepoSyncReconciler \<Rightarrow> NamespacedName \<Rightarrow> string \<Rightarrow> RSync \<Rightarrow> RSync \<Rightarrow> outcome" where
  "reconcileOwnedObjects env r rsRef reconcilerName currentRS rs =
    (case upsertAuthSecret env rs of
       Some err \<Rightarrow> stalledBy env r currentRS rs ''Secret'' err
                    (Wrap err ''Secret reconcile failed'') [UpsertAuthSecret]
     | None \<Rightarrow>
    (case upsertCACertSecret env rs of
       Some err \<Rightarrow> stalledBy env r currentRS rs ''Secret'' err
                    (Wrap err ''Secret reconcile failed'') [UpsertAuthSecret, UpsertCACertSecret]
     | None \<Rightarrow>
    (case upsertServiceAccount env rs of
       Some err \<Rightarrow> stalledBy env r currentRS rs ''ServiceAccount'' err
                    (Wrap err ''ServiceAccount reconcile failed'')
                    [UpsertAuthSecret, UpsertCACertSecret, UpsertServiceAccount]
     | None \<Rightarrow>
    (case upsertRoleBinding env rs of
       Some err \<Rightarrow> stalledBy env r currentRS rs ''RoleBinding'' err
                    (Wrap err ''RoleBinding reconcile failed'')
                    [UpsertAuthSecret, UpsertCACertSecret, UpsertServiceAccount, UpsertRoleBinding]
     | None \<Rightarrow>
    (let done = [UpsertAuthSecret, UpsertCACertSecret, UpsertServiceAccount, UpsertRoleBinding] in
     case NotificationEnabled env rs of
       Inl err \<Rightarrow> stalledBy env r currentRS rs ''Notification'' err
                    (Wrap err ''Check notification configuration failed'') done
     | Inr notificationEnabled \<Rightarrow>
        (case (if notificationEnabled
               then (case upsertNotificationCR env rs of
                       Some err \<Rightarrow> Inl (stalledBy env r currentRS rs ''Notification'' err
                                           (Wrap err ''Notification upsert failed'')
                                           (done @ [UpsertNotificationCR]))
                     | None \<Rightarrow> Inr (done @ [UpsertNotificationCR]))
               else (case deleteNotificationCR env rsRef of
                       Some err \<Rightarrow> Inl (Some (APIServerError err ''failed to delete Notification''),
                                           r, done @ [DeleteNotificationCR])
                     | None \<Rightarrow> Inr (done @ [DeleteNotificationCR]))) of
           Inl out \<Rightarrow> out
         | Inr done \<Rightarrow>
            (case upsertDeployment env rs notificationEnabled of
               Inl err \<Rightarrow> stalledBy env r currentRS rs ''Deployment'' err
                            (Wrap err ''Deployment reconcile failed'') (done @ [UpsertDeployment])
             | Inr (deployObj, op) \<Rightarrow>
                (let rs = rs\<lparr>Status := (Status rs)\<lparr>Reconciler := reconcilerName\<rparr>\<rparr>;
                     done = done @ [UpsertDeployment]
                 in if op = OperationResultNone
                    then (case deployment env reconcilerName of
                            Inl err \<Rightarrow> stalledBy env r currentRS rs ''Deployment'' err err
                                         (done @ [GetDeployment])
                          | Inr deployObj \<Rightarrow>
                              reconcileDeploymentStatus env r currentRS rs deployObj
                                (done @ [GetDeployment]))
                    else reconcileDeploymentStatus env r currentRS rs deployObj done))))))))"

text \<open>\<open>strings.Join\<close>.\<close>

fun Join :: "string list \<Rightarrow> string \<Rightarrow> string" where
  "Join [] sep = []"
| "Join [s] sep = s"
| "Join (s # t # ss) sep = s @ sep @ Join (t # ss) sep"

text \<open>
  \<open>cleanup\<close> of \<open>reconcilerBase\<close>: the object of the kind \<open>gvk\<close> and the key \<open>key\<close> is
  deleted; that it is not found is no error.
\<close>

definition cleanup :: "ManagerEnv \<Rightarrow> NamespacedName \<Rightarrow> string \<Rightarrow> error option" where
  "cleanup env key gvk =
     (case mgr_Delete env gvk key of
        Some err \<Rightarrow> if err = NotFound then None else Some (APIError err)
      | None \<Rightarrow> None)"

definition deleteDeployment :: "ManagerEnv \<Rightarrow> NamespacedName \<Rightarrow> error option" where
  "deleteDeployment env reconcilerRef = cleanup env reconcilerRef ''Deployment''"

definition deleteServiceAccount :: "ManagerEnv \<Rightarrow> NamespacedName \<Rightarrow> error option" where
  "deleteServiceAccount env reconcilerRef = cleanup env reconcilerRef ''ServiceAccount''"

text \<open>
  \<open>cleanupNSControllerResources\<close>: the objects made for the reconciler of a RepoSync that
  is gone are deleted one kind after the other, up to the first error; when all are
  deleted, the RepoSync is taken out of \<open>repoSyncs\<close>.
\<close>

definition cleanupNSControllerResources ::
  "ManagerEnv \<Rightarrow> RepoSyncReconciler \<Rightarrow> NamespacedName \<Rightarrow> NamespacedName
     \<Rightarrow> error option \<times> RepoSyncReconciler" where
  "cleanupNSControllerResources env r rsKey reconcilerRef =
    (case mgr_List env (fst rsKey) of
       Some err \<Rightarrow>
         (Some (Wrap (APIError err)
            (''failed to list RepoSync managed objects in namespace ''
             @ [CHR 0x22] @ fst rsKey @ [CHR 0x22])), r)
     | None \<Rightarrow>
    (case deleteDeployment env reconcilerRef of
       Some err \<Rightarrow> (Some err, r)
     | None \<Rightarrow>
    (case deleteConfigMaps env reconcilerRef of
       Some err \<Rightarrow> (Some err, r)
     | None \<Rightarrow>
    (case deleteServiceAccount env reconcilerRef of
       Some err \<Rightarrow> (Some err, r)
     | None \<Rightarrow>
    (case deleteRoleBinding env reconcilerRef rsKey of
       Some err \<Rightarrow> (Some err, r)
     | None \<Rightarrow>
    (case deleteSecrets env reconcilerRef of
       Some err \<Rightarrow> (Some err, r)
     | None \<Rightarrow>
    (case cleanup env rsKey ''Notification'' of
       Some err \<Rightarrow> (Some err, r)
     | None \<Rightarrow> (None, r\<lparr>repoSyncs := repoSyncs r - {rsKey}\<rparr>))))))))"

text \<open>
  \<open>Reconcile\<close>, for the request \<open>rsRef\<close> (namespace and name). The result is the error
  returned (\<open>None\<close> for \<open>nil\<close>; the \<open>Result\<close> is always empty), the controller afterwards,
  and what was done to the cluster.
\<close>

definition Reconcile :: "ManagerEnv \<Rightarrow> RepoSyncReconciler \<Rightarrow> NamespacedName \<Rightarrow> outcome" where
  "Reconcile env r rsRef =
    (let reconcilerName = NsReconcilerName env (fst rsRef) (snd rsRef) in
     case mgr_Get env rsRef of
       Inl err \<Rightarrow>
         if err = NotFound
         then (let r = clearLastReconciled r rsRef in
               if rsRef \<notin> repoSyncs r then (None, r, [])
               else (let (cleanupErr, r) = cleanupNSControllerResources env r rsRef
                                             (NSConfigManagementSystem, reconcilerName)
                     in (cleanupErr, r, [CleanupNSControllerResources])))
         else (Some (APIServerError err ''failed to get RepoSync''), r, [])
     | Inr rs \<Rightarrow>
         if isLastReconciled r rsRef (ResourceVersion rs)
         then (Some (Errorf (''ResourceVersion already reconciled: '' @ ResourceVersion rs)), r, [])
         else
          (let currentRS = rs in
           case validateNamespaceName (fst rsRef) of
             Some err \<Rightarrow> stalledByValidation env r currentRS rs err []
           | None \<Rightarrow>
              (let r = r\<lparr>repoSyncs := insert rsRef (repoSyncs r)\<rparr> in
               if IsDNS1123Subdomain env reconcilerName \<noteq> []
               then stalledByValidation env r currentRS rs
                      (Errorf (''Invalid reconciler name '' @ [CHR 0x22] @ reconcilerName
                               @ [CHR 0x22] @ '': ''
                               @ Join (IsDNS1123Subdomain env reconcilerName) '', '' @ ''.'')) []
               else case validateSpec env rs reconcilerName of
                 Some err \<Rightarrow> stalledByValidation env r currentRS rs err []
               | None \<Rightarrow> reconcileOwnedObjects env r rsRef reconcilerName currentRS rs)))"

section \<open>The hydration controller (\<open>pkg/hydrate/controller.go\<close>)\<close>

text \<open>
  The errors of a hydration (\<open>NewActionableError\<close>, \<open>NewTransientError\<close>,
  \<open>NewInternalError\<close>) and the errors of \<open>SourceCommitAndDir\<close>.
\<close>

datatype HydrationError = ActionableError string | TransientError string | InternalError string

datatype status_Error =
    StatusTransientError string
  | StatusSourceError string
  | StatusPathWrapError string

text \<open>
  The files and links of the worker pod that the hydration controller reads and writes.
  A directory of a commit, under the source root or the hydrated root, is named by the
  commit.
  \<^item> \<open>sourceRootMounted\<close>: the source root exists;
  \<^item> \<open>sourceErrorFile\<close>: the content of \<open>error.json\<close> under the source root, if it exists;
  \<^item> \<open>sourceLink\<close>: the commit directory the source link resolves to, if it resolves;
  \<^item> \<open>syncDirResolves\<close>: the sync directory resolves under that commit directory;
  \<^item> \<open>hydratedLink\<close>: the directory the hydrated link resolves to, if the link exists;
  \<^item> \<open>hydratedDirs\<close>: the rendered directories under the hydrated root;
  \<^item> \<open>hydratedErrorFile\<close>: the content of \<open>error.json\<close> under the hydrated root;
  \<^item> \<open>doneFile\<close>: the content of the done file.
\<close>

record HydratorFS =
  sourceRootMounted :: bool
  sourceErrorFile :: "string option"
  sourceLink :: "string option"
  syncDirResolves :: bool
  hydratedLink :: "string option"
  hydratedDirs :: "string list"
  hydratedErrorFile :: "string option"
  doneFile :: "string option"

record Hydrator =
  h_SourceType :: SourceType
  h_SyncDir :: string
  h_ReconcilerName :: string

text \<open>
  What the controller calls outside the sources, and the failures of the operating system.
  \<^item> \<open>needsKustomize\<close>, \<open>hasKustomizeSubdir\<close> and \<open>kustomizeBuild\<close> are not among the
    sources. \<open>kustomizeBuild\<close> takes the sync directory and the commit it renders for; it
    returns its error and the files as they are when it returns: it runs for a while, and
    the fetcher may move the source link in the meantime.
  \<^item> \<open>filterArgs\<close> stands for \<open>filterArgsFromErrorPayload\<close>, which rewrites JSON, and
    \<open>payload\<close> for the JSON that \<open>exportError\<close> writes for a hydration error.
  \<^item> Each other field is the error of one call of the operating system, \<open>None\<close> when the
    call succeeds. A failure of \<open>os.Stat\<close> or \<open>EvalSymlinks\<close> listed here is one other
    than "does not exist", which the files themselves decide.
  The texts of the errors are abridged where the source spells out paths and advice.
\<close>

record HydratorEnv =
  needsKustomize :: "string \<Rightarrow> string + bool"
  hasKustomizeSubdir :: "string \<Rightarrow> string + bool"
  kustomizeBuild :: "string \<Rightarrow> string \<Rightarrow> HydratorFS \<Rightarrow> HydrationError option \<times> HydratorFS"
  filterArgs :: "string \<Rightarrow> string"
  payload :: "HydrationError \<Rightarrow> string"
  readSourceErrorFileErr :: "string option"
  statDoneErr :: "string option"
  readDoneErr :: "string option"
  statErrorFileErr :: "string option"
  removeHydratedRootErr :: "string option"
  removeDoneErr :: "string option"
  evalHydratedLinkErr :: "string option"
  symlinkErr :: "string option"
  renameErr :: "string option"
  removeErrorFileErr :: "string option"
  writeErrorFileErr :: "string option"
  chmodErrorFileErr :: "string option"
  createDoneErr :: "string option"
  writeDoneErr :: "string option"

text \<open>What a tick of a timer makes the controller do, in order.\<close>

datatype hydrator_call = Hydrate string | Render string | Complete string

text \<open>The containers' names, from \<open>pkg/reconcilermanager/constants.go\<close>.\<close>

definition GitSync :: string where "GitSync = ''git-sync''"
definition OciSync :: string where "OciSync = ''oci-sync''"
definition HelmSync :: string where "HelmSync = ''helm-sync''"

definition SourceCommitAndDir ::
  "Hydrator \<Rightarrow> HydratorEnv \<Rightarrow> HydratorFS \<Rightarrow> string \<times> string \<times> status_Error option" where
  "SourceCommitAndDir h env fs =
    (if \<not> sourceRootMounted fs
     then ([], [], Some (StatusTransientError ''source root does not exist''))
     else
      (let containerName = (case h_SourceType h of
               OciSource \<Rightarrow> OciSync | GitSource \<Rightarrow> GitSync | HelmSource \<Rightarrow> HelmSync
             | UnknownSource \<Rightarrow> [])
       in case readSourceErrorFileErr env of
         Some err \<Rightarrow>
           ([], [], Some (StatusTransientError (''unable to load error.json: '' @ err
              @ ''. Please check '' @ containerName @ '' logs for more info'')))
       | None \<Rightarrow>
          (case sourceErrorFile fs of
             Some content \<Rightarrow>
               if length content = 0
               then ([], [], Some (StatusSourceError (''error.json is empty. Please check ''
                      @ containerName @ '' logs for more info'')))
               else ([], [], Some (StatusSourceError (''error in the '' @ containerName
                      @ '' container: '' @ filterArgs env content)))
           | None \<Rightarrow>
              (case sourceLink fs of
                 None \<Rightarrow> ([], [], Some (StatusSourceError ''unable to evaluate the source link''))
               | Some c \<Rightarrow>
                   if \<not> syncDirResolves fs
                   then (c, [], Some (StatusPathWrapError
                          ''evaluating symbolic link to policy sourceRoot''))
                   else (c, c @ ''/'' @ h_SyncDir h, None)))))"

definition DoneCommit :: "HydratorEnv \<Rightarrow> HydratorFS \<Rightarrow> string" where
  "DoneCommit env fs =
    (case statDoneErr env of
       Some err \<Rightarrow> []
     | None \<Rightarrow>
        (case doneFile fs of
           None \<Rightarrow> []
         | Some c \<Rightarrow> (case readDoneErr env of Some err \<Rightarrow> [] | None \<Rightarrow> c)))"

text \<open>\<open>ComputeCommit\<close> of the source directory: the base name of what the link resolves to.\<close>

definition ComputeCommit :: "HydratorFS \<Rightarrow> string + string" where
  "ComputeCommit fs =
    (case sourceLink fs of
       None \<Rightarrow> Inl ''unable to evaluate the symbolic link of sourceDir''
     | Some c \<Rightarrow> Inr c)"

text \<open>
  \<open>updateSymlink\<close> to the directory \<open>newDir\<close>. The temporary link it creates and renames
  is not part of the files modelled.
\<close>

definition updateSymlink :: "HydratorEnv \<Rightarrow> HydratorFS \<Rightarrow> string \<Rightarrow> string option \<times> HydratorFS" where
  "updateSymlink env fs newDir =
    (let evalErr = (case evalHydratedLinkErr env of
                      Some e \<Rightarrow> Some (False, e)
                    | None \<Rightarrow> (case hydratedLink fs of
                                  None \<Rightarrow> Some (True, ''no such file or directory'')
                                | Some _ \<Rightarrow> None));
         oldDir = (case evalErr of None \<Rightarrow> (case hydratedLink fs of Some d \<Rightarrow> d | None \<Rightarrow> [])
                                 | Some _ \<Rightarrow> [])
     in if oldDir = newDir then (None, fs)
        else case (case evalErr of
                     None \<Rightarrow> Inr True
                   | Some (isNotExist, e) \<Rightarrow>
                       if \<not> isNotExist
                       then Inl (''unable to access the current hydrated directory: '' @ e)
                       else Inr False) of
            Inl e \<Rightarrow> (Some e, fs)
          | Inr deleteOldDir \<Rightarrow>
             (case symlinkErr env of
                Some e \<Rightarrow> (Some (''unable to create symlink: '' @ e), fs)
              | None \<Rightarrow>
                 (case renameErr env of
                    Some e \<Rightarrow> (Some (''unable to replace symlink: '' @ e), fs)
                  | None \<Rightarrow>
                     (let fs = fs\<lparr>hydratedLink := Some newDir\<rparr>
                      in (None, if deleteOldDir
                                then fs\<lparr>hydratedDirs := removeAll oldDir (hydratedDirs fs)\<rparr>
                                else fs)))))"

text \<open>
  \<open>runHydrate\<close>: the result, the files afterwards, and the calls made.
\<close>

definition runHydrate ::
  "Hydrator \<Rightarrow> HydratorEnv \<Rightarrow> HydratorFS \<Rightarrow> string \<Rightarrow> string
     \<Rightarrow> HydrationError option \<times> HydratorFS \<times> hydrator_call list" where
  "runHydrate h env fs sourceCommit syncDir =
    (case kustomizeBuild env syncDir sourceCommit fs of
       (Some err, fs) \<Rightarrow> (Some err, fs, [Render sourceCommit])
     | (None, fs) \<Rightarrow>
        (case ComputeCommit fs of
           Inl err \<Rightarrow> (Some (TransientError err), fs, [Render sourceCommit])
         | Inr newCommit \<Rightarrow>
             if sourceCommit \<noteq> newCommit
             then (Some (TransientError (''source commit changed while running Kustomize build, was ''
                     @ sourceCommit @ '', now '' @ newCommit
                     @ ''. It will be retried in the next sync'')), fs, [Render sourceCommit])
             else (case updateSymlink env fs sourceCommit of
                     (Some err, fs) \<Rightarrow>
                       (Some (InternalError (''unable to update the symbolic link to ''
                          @ sourceCommit @ '': '' @ err)), fs, [Render sourceCommit])
                   | (None, fs) \<Rightarrow> (None, fs, [Render sourceCommit]))))"

definition hydrate ::
  "Hydrator \<Rightarrow> HydratorEnv \<Rightarrow> HydratorFS \<Rightarrow> string \<Rightarrow> string
     \<Rightarrow> HydrationError option \<times> HydratorFS \<times> hydrator_call list" where
  "hydrate h env fs sourceCommit syncDir =
    (case needsKustomize env syncDir of
       Inl err \<Rightarrow> (Some (InternalError
         (''unable to check if rendering is needed for the source directory: '' @ syncDir
          @ '': '' @ err)), fs, [])
     | Inr needed \<Rightarrow>
        if \<not> needed
        then (case hasKustomizeSubdir env syncDir of
                Inl err \<Rightarrow> (Some (InternalError err), fs, [])
              | Inr found \<Rightarrow>
                  if found
                  then (Some (ActionableError
                         (''Kustomization config file is missing from the sync directory ''
                          @ syncDir @ ''. To fix, either add kustomization.yaml in the sync ''
                          @ ''directory to trigger the rendering process, or remove ''
                          @ ''kustomizaiton.yaml from all sub directories to skip rendering.'')),
                        fs, [])
                  else (case removeHydratedRootErr env of
                          Some err \<Rightarrow> (Some (InternalError err), fs, [])
                        | None \<Rightarrow> (None, fs\<lparr>hydratedLink := None, hydratedDirs := [],
                                                hydratedErrorFile := None\<rparr>, [])))
        else (case removeDoneErr env of
                Some err \<Rightarrow> (Some (InternalError (''unable to remove the done file: '' @ err)),
                             fs, [])
              | None \<Rightarrow> runHydrate h env (fs\<lparr>doneFile := None\<rparr>) sourceCommit syncDir))"

definition deleteErrorFile :: "HydratorEnv \<Rightarrow> HydratorFS \<Rightarrow> string option \<times> HydratorFS" where
  "deleteErrorFile env fs =
    (case hydratedErrorFile fs of
       None \<Rightarrow> (None, fs)
     | Some _ \<Rightarrow>
        (case removeErrorFileErr env of
           Some err \<Rightarrow> (Some (''unable to delete error file: '' @ err), fs)
         | None \<Rightarrow> (None, fs\<lparr>hydratedErrorFile := None\<rparr>)))"

text \<open>
  \<open>exportError\<close>: the steps up to the write of the temporary file fail without a change
  of the files modelled; the change of the permissions fails with the error file in place.
\<close>

definition exportError :: "HydratorEnv \<Rightarrow> HydratorFS \<Rightarrow> HydrationError \<Rightarrow> string option \<times> HydratorFS" where
  "exportError env fs hydrationError =
    (case writeErrorFileErr env of
       Some err \<Rightarrow> (Some err, fs)
     | None \<Rightarrow>
        (let fs = fs\<lparr>hydratedErrorFile := Some (payload env hydrationError)\<rparr>
         in case chmodErrorFileErr env of
              Some err \<Rightarrow> (Some (''unable to change permissions on the error-file: '' @ err), fs)
            | None \<Rightarrow> (None, fs)))"

definition complete ::
  "Hydrator \<Rightarrow> HydratorEnv \<Rightarrow> HydratorFS \<Rightarrow> string \<Rightarrow> HydrationError option
     \<Rightarrow> string option \<times> HydratorFS" where
  "complete h env fs c hydrationErr =
    (case (case hydrationErr of
             None \<Rightarrow> deleteErrorFile env fs
           | Some e \<Rightarrow> exportError env fs e) of
       (Some err, fs) \<Rightarrow> (Some err, fs)
     | (None, fs) \<Rightarrow>
        (case createDoneErr env of
           Some err \<Rightarrow> (Some (''unable to create done file: '' @ err), fs)
         | None \<Rightarrow>
            (case writeDoneErr env of
               Some err \<Rightarrow> (Some (''unable to write to commit hash to the done file: '' @ err),
                            fs\<lparr>doneFile := Some []\<rparr>)
             | None \<Rightarrow> (None, fs\<lparr>doneFile := Some c\<rparr>))))"

definition rehydrateOnError ::
  "Hydrator \<Rightarrow> HydratorEnv \<Rightarrow> HydratorFS \<Rightarrow> string \<Rightarrow> string \<Rightarrow> HydratorFS \<times> hydrator_call list" where
  "rehydrateOnError h env fs sourceCommit syncDir =
    (if statErrorFileErr env \<noteq> None \<or> hydratedErrorFile fs = None then (fs, [])
     else
      (let (hydrationErr, fs, calls) = runHydrate h env fs sourceCommit syncDir;
           (err, fs) = complete h env fs sourceCommit hydrationErr
       in (fs, calls @ [Complete sourceCommit])))"

text \<open>
  The loop of \<open>Run\<close>: what the \<open>select\<close> receives, one event after the other, until the
  context is done. Resetting a timer decides when the next tick comes, not what it does.
\<close>

datatype event = ContextDone | RehydrateTick | RunTick

definition rehydrateTimerTick ::
  "Hydrator \<Rightarrow> HydratorEnv \<Rightarrow> HydratorFS \<Rightarrow> HydratorFS \<times> hydrator_call list" where
  "rehydrateTimerTick h env fs =
    (case SourceCommitAndDir h env fs of
       (c, syncDir, Some err) \<Rightarrow> (fs, [])
     | (c, syncDir, None) \<Rightarrow> rehydrateOnError h env fs c syncDir)"

definition runTimerTick ::
  "Hydrator \<Rightarrow> HydratorEnv \<Rightarrow> HydratorFS \<Rightarrow> HydratorFS \<times> hydrator_call list" where
  "runTimerTick h env fs =
    (case SourceCommitAndDir h env fs of
       (c, syncDir, Some err) \<Rightarrow> (fs, [])
     | (c, syncDir, None) \<Rightarrow>
         if DoneCommit env fs \<noteq> c
         then (let (hydrateErr, fs, calls) = hydrate h env fs c syncDir;
                   (err, fs) = complete h env fs c hydrateErr
               in (fs, Hydrate c # calls @ [Complete c]))
         else (fs, []))"

fun Run :: "Hydrator \<Rightarrow> HydratorEnv \<Rightarrow> event list \<Rightarrow> HydratorFS \<Rightarrow> HydratorFS \<times> hydrator_call list" where
  "Run h env [] fs = (fs, [])"
| "Run h env (ContextDone # events) fs = (fs, [])"
| "Run h env (RehydrateTick # events) fs =
     (let (fs, calls) = rehydrateTimerTick h env fs;
          (fs, later) = Run h env events fs
      in (fs, calls @ later))"
| "Run h env (RunTick # events) fs =
     (let (fs, calls) = runTimerTick h env fs;
          (fs, later) = Run h env events fs
      in (fs, calls @ later))"

section \<open>The admission webhook and the notified annotation (packages \<open>webhook\<close> and \<open>util\<close>)\<close>

text \<open>
  A field path is written as the diff set prints it, with dots:
  \<open>.metadata.labels.this\<close>. \<open>NotifiedAnnotationPath\<close> is the constant of
  \<open>pkg/util/notification.go\<close>.
\<close>

definition NotifiedAnnotationPath :: string where
  "NotifiedAnnotationPath = ''.metadata.annotations.notified.notifications.argoproj.io''"

definition ManagedFieldsPath :: string where
  "ManagedFieldsPath = ''.metadata.managedFields''"

text \<open>
  Modelled from the spec: \<open>OnlyNotifiedAnnotation\<close> (of package \<open>webhook\<close>) is not among
  the sources; its test and its caller are. It takes the field-diff set between the old and
  the new object, here the list of its paths, and returns true exactly when the changed
  field paths, \<open>.metadata.managedFields\<close> being ignored, are confined to the
  notified-annotation path, which is then the sole difference.
\<close>

definition OnlyNotifiedAnnotation :: "string list \<Rightarrow> bool" where
  "OnlyNotifiedAnnotation diffSet =
     (let changed = filter (\<lambda>p. p \<noteq> ManagedFieldsPath) diffSet
      in changed \<noteq> [] \<and> list_all (\<lambda>p. p = NotifiedAnnotationPath) changed)"

text \<open>
  What \<open>allowNotificationAnnotation\<close> reads of an admission request: whether the new
  object is unstructured, its kind, the error of its conversion to a RootSync or RepoSync,
  the result of \<open>util.NotificationEnabled\<close>, the name of its reconciler
  (\<open>core.RootReconcilerName\<close> or \<open>core.NsReconcilerName\<close>), the user, and the result of
  \<open>FieldDiff\<close> on the old and the new object.
\<close>

record NotificationRequest =
  newObjUnstructured :: bool
  newObjKind :: string
  convertErr :: "string option"
  notificationEnabled :: "string + bool"
  reconciler :: string
  username :: string
  fieldDiff :: "string + string list"

definition allowNotificationAnnotation :: "NotificationRequest \<Rightarrow> bool" where
  "allowNotificationAnnotation req =
    (if \<not> newObjUnstructured req then False
     else if newObjKind req \<noteq> ''RootSync'' \<and> newObjKind req \<noteq> ''RepoSync'' then False
     else case convertErr req of
         Some err \<Rightarrow> False
       | None \<Rightarrow>
          (case notificationEnabled req of
             Inl err \<Rightarrow> False
           | Inr enabled \<Rightarrow>
               if \<not> enabled then False
               else if reconciler req \<noteq> username req then False
               else (case fieldDiff req of
                       Inl err \<Rightarrow> False
                     | Inr diffSet \<Rightarrow> OnlyNotifiedAnnotation diffSet)))"

section \<open>Example inputs\<close>

definition emptySection :: SourceStatus where
  "emptySection = \<lparr>Git = None, Oci = None, Helm = None, Commit = [], LastUpdate = 0,
                    Errors = [], ErrorSummary = None\<rparr>"

definition emptyStatus :: Status where
  "emptyStatus = \<lparr>ObservedGeneration = 0, Reconciler = [], LastSyncedCommit = [],
                   LastCommit = [], Source = emptySection,
                   Rendering = \<lparr>Git = None, Oci = None, Helm = None, Commit = [],
                     LastUpdate = 0, Errors = [], ErrorSummary = None, Message = []\<rparr>,
                   Sync = emptySection, Conditions = []\<rparr>"

definition exampleRootSync :: RSync where
  "exampleRootSync = \<lparr>Namespace = ControllerNamespace, Name = ''root-sync'', Generation = 1,
                       ResourceVersion = ''1'', DeletionTimestamp = 0, Status = emptyStatus\<rparr>"

definition exampleParser :: Parser where
  "exampleParser = \<lparr>scope = RootReconciler, syncName = ''root-sync'', SourceType = GitSource,
      SourceRepo = ''repo'', SourceRev = ''HEAD'', SourceBranch = ''main'', SyncDir = ''acme'',
      client = \<lparr>Get = Inr exampleRootSync, Status_Update = (\<lambda>rs. None),
                 Get_Namespace = (\<lambda>ns. Inl NotFound)\<rparr>,
      SetSyncing = (\<lambda>cs syncing reason msg c srcs summary t. cs),
      cmp_Equal = (\<lambda>a b. a = b),
      IsManager = (\<lambda>obj. False)\<rparr>"

definition exampleSyncStatus :: syncStatus where
  "exampleSyncStatus = \<lparr>commit = ''abc'', errs = [], lastUpdate = 5, syncing = False\<rparr>"

definition fourErrors :: "ConfigSyncError list" where
  "fourErrors = [\<lparr>Code = ''1000'', ErrorMessage = ''a''\<rparr>, \<lparr>Code = ''1000'', ErrorMessage = ''b''\<rparr>,
                 \<lparr>Code = ''1000'', ErrorMessage = ''c''\<rparr>, \<lparr>Code = ''1000'', ErrorMessage = ''d''\<rparr>]"

definition smallServerParser :: Parser where
  "smallServerParser = exampleParser\<lparr>client := (client exampleParser)\<lparr>Status_Update :=
     (\<lambda>rs. if length (Errors (Source (Status rs))) + length (Errors (Rendering (Status rs)))
                + length (Errors (Sync (Status rs))) > 1
            then Some RequestEntityTooLarge else None)\<rparr>\<rparr>"

definition failedSourceStatus :: sourceStatus where
  "failedSourceStatus = \<lparr>commit = ''abc'', errs = fourErrors, lastUpdate = 5\<rparr>"

definition failedRenderingStatus :: renderingStatus where
  "failedRenderingStatus = \<lparr>commit = ''abc'', errs = fourErrors, lastUpdate = 5, message = ''Rendering failed''\<rparr>"

definition failedSyncStatus :: syncStatus where
  "failedSyncStatus = \<lparr>commit = ''abc'', errs = fourErrors, lastUpdate = 5, syncing = False\<rparr>"

definition unchangedParser :: Parser where
  "unchangedParser = exampleParser\<lparr>cmp_Equal := (\<lambda>a b. True)\<rparr>"

definition conflictA :: ManagementConflictError where
  "conflictA = \<lparr>ToCSE = \<lparr>Code = ''1060'', ErrorMessage = ''conflict on a''\<rparr>,
                  CurrentManagerError_ToCSE = \<lparr>Code = ''1060'', ErrorMessage = ''a is managed by x''\<rparr>\<rparr>"

definition conflictB :: ManagementConflictError where
  "conflictB = \<lparr>ToCSE = \<lparr>Code = ''1060'', ErrorMessage = ''conflict on b''\<rparr>,
                  CurrentManagerError_ToCSE = \<lparr>Code = ''1060'', ErrorMessage = ''b is managed by x''\<rparr>\<rparr>"

definition conflictedRootSync :: RSync where
  "conflictedRootSync = exampleRootSync\<lparr>Status := emptyStatus\<lparr>Sync := emptySection\<lparr>
      Errors := [\<lparr>Code = ''1060'', ErrorMessage = ''a is managed by x''\<rparr>,
                 \<lparr>Code = ''2009'', ErrorMessage = ''apply failed''\<rparr>]\<rparr>\<rparr>\<rparr>"

definition conflictedClient :: Client where
  "conflictedClient = \<lparr>Get = Inr conflictedRootSync, Status_Update = (\<lambda>rs. None),
                        Get_Namespace = (\<lambda>ns. Inl NotFound)\<rparr>"




definition exampleRepoSync :: RSync where
  "exampleRepoSync = \<lparr>Namespace = ''bookstore'', Name = ''repo-sync'', Generation = 1,
                       ResourceVersion = ''7'', DeletionTimestamp = 0, Status = emptyStatus\<rparr>"

definition misplacedRepoSync :: RSync where
  "misplacedRepoSync = exampleRepoSync\<lparr>Namespace := ControllerNamespace\<rparr>"

definition exampleEnv :: ManagerEnv where
  "exampleEnv = \<lparr>
     mgr_Get = (\<lambda>nn. if nn = (''bookstore'', ''repo-sync'') then Inr exampleRepoSync
                     else if nn = (ControllerNamespace, ''repo-sync'') then Inr misplacedRepoSync
                     else Inl NotFound),
     mgr_Status_Update = (\<lambda>rs. None),
     mgr_cmp_Equal = (\<lambda>a b. a = b),
     NsReconcilerName = (\<lambda>ns n. ''ns-reconciler-'' @ ns @ ''-'' @ n),
     IsDNS1123Subdomain = (\<lambda>n. []),
     mgr_List = (\<lambda>ns. None),
     mgr_Delete = (\<lambda>gvk nn. None),
     deleteConfigMaps = (\<lambda>nn. None),
     deleteRoleBinding = (\<lambda>nn rs. None),
     deleteSecrets = (\<lambda>nn. None),
     validateSpec = (\<lambda>rs n. None),
     upsertAuthSecret = (\<lambda>rs. None),
     upsertCACertSecret = (\<lambda>rs. None),
     upsertServiceAccount = (\<lambda>rs. None),
     upsertRoleBinding = (\<lambda>rs. None),
     NotificationEnabled = (\<lambda>rs. Inr False),
     upsertNotificationCR = (\<lambda>rs. None),
     deleteNotificationCR = (\<lambda>nn. None),
     upsertDeployment = (\<lambda>rs n. Inr (\<lparr>DeploymentResourceVersion = ''1''\<rparr>, OperationResultCreated)),
     deployment = (\<lambda>n. Inr \<lparr>DeploymentResourceVersion = ''1''\<rparr>),
     kstatus_Compute = (\<lambda>d. Inr (InProgressStatus, ''Replicas: 0/1''))\<rparr>"

definition freshController :: RepoSyncReconciler where
  "freshController = \<lparr>repoSyncs = {}, lastReconciledResourceVersions = Map.empty\<rparr>"

definition staleController :: RepoSyncReconciler where
  "staleController = \<lparr>repoSyncs = {(''bookstore'', ''repo-sync'')},
     lastReconciledResourceVersions =
       [(''bookstore'', ''repo-sync'') \<mapsto> ''7'', (ControllerNamespace, ''repo-sync'') \<mapsto> ''7'']\<rparr>"

definition stalledRepoSync :: RSync where
  "stalledRepoSync = misplacedRepoSync\<lparr>Status := emptyStatus\<lparr>
     ObservedGeneration := 1,
     Conditions := [\<lparr>Type = Stalled, CondStatus = ConditionTrue, Reason = ''Validation'',
       CondMessage = ''RepoSync objects are not allowed in the config-management-system namespace''\<rparr>]\<rparr>\<rparr>"

definition exampleHydrator :: Hydrator where
  "exampleHydrator = \<lparr>h_SourceType = GitSource, h_SyncDir = ''acme'',
                        h_ReconcilerName = ''root-reconciler''\<rparr>"

text \<open>A renderer that succeeds, while the fetcher moves the source link to \<open>def\<close>.\<close>

definition exampleHydratorEnv :: HydratorEnv where
  "exampleHydratorEnv = \<lparr>
     needsKustomize = (\<lambda>d. Inr True),
     hasKustomizeSubdir = (\<lambda>d. Inr False),
     kustomizeBuild = (\<lambda>d c fs. (None, fs\<lparr>hydratedDirs := c # hydratedDirs fs,
                                              sourceLink := Some ''def''\<rparr>)),
     filterArgs = (\<lambda>s. s),
     payload = (\<lambda>e. case e of ActionableError s \<Rightarrow> s | TransientError s \<Rightarrow> s
                            | InternalError s \<Rightarrow> s),
     readSourceErrorFileErr = None, statDoneErr = None, readDoneErr = None,
     statErrorFileErr = None, removeHydratedRootErr = None, removeDoneErr = None,
     evalHydratedLinkErr = None, symlinkErr = None, renameErr = None,
     removeErrorFileErr = None, writeErrorFileErr = None, chmodErrorFileErr = None,
     createDoneErr = None, writeDoneErr = None\<rparr>"

definition exampleFS :: HydratorFS where
  "exampleFS = \<lparr>sourceRootMounted = True, sourceErrorFile = None, sourceLink = Some ''abc'',
                 syncDirResolves = True, hydratedLink = Some ''old'', hydratedDirs = [''old''],
                 hydratedErrorFile = None, doneFile = None\<rparr>"

definition failedFS :: HydratorFS where
  "failedFS = exampleFS\<lparr>hydratedErrorFile := Some ''render failed'', doneFile := Some ''abc''\<rparr>"

text \<open>The done file records the commit \<open>abc\<close>, and reading it fails.\<close>

definition renderedFS :: HydratorFS where
  "renderedFS = exampleFS\<lparr>doneFile := Some ''abc''\<rparr>"

definition unreadableDoneEnv :: HydratorEnv where
  "unreadableDoneEnv = exampleHydratorEnv\<lparr>readDoneErr := Some ''input/output error''\<rparr>"

definition notifiedRequest :: NotificationRequest where
  "notifiedRequest = \<lparr>newObjUnstructured = True, newObjKind = ''RootSync'', convertErr = None,
     notificationEnabled = Inr True, reconciler = ''root-reconciler'',
     username = ''root-reconciler'',
     fieldDiff = Inr [NotifiedAnnotationPath, ManagedFieldsPath]\<rparr>"

section \<open>Termination of the retries\<close>

lemma sint_double:
  fixes d :: go_int
  shows "sint (d * 2) = signed_take_bit 63 (2 * sint d)"
  by (simp add: sint_word_ariths mult.commute)

lemma sint_double_pos:
  fixes d :: go_int
  assumes "0 < sint d" and "0 < sint (d * 2)"
  shows "sint (d * 2) = 2 * sint d"
proof -
  have b: "sint d < 2 ^ 63" using sint_lt [of d] by simp
  show ?thesis
  proof (cases "2 * sint d < 2 ^ 63")
    case True
    with assms(1) show ?thesis
      by (simp add: sint_double signed_take_bit_int_eq_self)
  next
    case False
    then have "signed_take_bit 63 (2 * sint d) \<le> 2 * sint d - 2 ^ Suc 63"
      by (intro signed_take_bit_int_less_eq) simp
    with b assms(2) show ?thesis by (simp add: sint_double)
  qed
qed

lemma retries_left_double:
  fixes d :: go_int
  assumes "\<not> sint d \<le> 0"
  shows "retries_left (d * 2) < retries_left d"
proof -
  have b: "sint d < 2 ^ 63" using sint_lt [of d] by simp
  show ?thesis
  proof (cases "sint (d * 2) \<le> 0")
    case True
    with assms b show ?thesis by (simp add: retries_left_def)
  next
    case False
    with assms have "sint (d * 2) = 2 * sint d" by (simp add: sint_double_pos)
    with assms b False show ?thesis by (simp add: retries_left_def)
  qed
qed

termination setSourceStatusWithRetries
  by (relation "measure (\<lambda>(p, s, d). retries_left d)") (simp_all add: retries_left_double)

termination setRenderingStatusWithRetires
  by (relation "measure (\<lambda>(p, s, d). retries_left d)") (simp_all add: retries_left_double)

termination setSyncStatusWithRetries
  by (relation "measure (\<lambda>(p, s, d). retries_left d)") (simp_all add: retries_left_double)

termination prependRootSyncRemediatorStatus
  by (relation "measure (\<lambda>(cl, c, n, s, e, d). retries_left d)")
     (simp_all add: retries_left_double)

declare setSourceStatusWithRetries.simps [simp del]
declare setRenderingStatusWithRetires.simps [simp del]
declare setSyncStatusWithRetries.simps [simp del]
declare prependRootSyncRemediatorStatus.simps [simp del]

section \<open>The trace of a setter\<close>

lemma snd_sent [simp]: "snd (sent rs r) = rs # snd r"
  by (cases r) simp

lemma fst_sent [simp]: "fst (sent rs r) = fst r"
  by (cases r) simp

lemma setSourceStatusWithRetries_attempt:
  assumes "0 < sint d" and "Get (client p) = Inr rs"
  shows "setSourceStatusWithRetries p newStatus d =
    (let obj = sourceStatusMutation p newStatus d rs in
     if \<not> IsZero (LastUpdate (Source (Status rs))) \<and> cmp_Equal p (Status rs) (Status obj)
     then (None, [])
     else case Status_Update (client p) obj of
         None \<Rightarrow> (None, [obj])
       | Some err \<Rightarrow>
           if isRequestTooLargeError err
           then sent obj (setSourceStatusWithRetries p newStatus (d * 2))
           else (Some (APIServerError err (''failed to update '' @ kindName (scope p)
                   @ '' source status from parser'')), [obj]))"
  using assms by (subst setSourceStatusWithRetries.simps) simp

lemma setRenderingStatusWithRetires_attempt:
  assumes "0 < sint d" and "Get (client p) = Inr rs"
  shows "setRenderingStatusWithRetires p newStatus d =
    (let obj = renderingStatusMutation p newStatus d rs in
     if \<not> IsZero (LastUpdate (Rendering (Status rs))) \<and> cmp_Equal p (Status rs) (Status obj)
     then (None, [])
     else case Status_Update (client p) obj of
         None \<Rightarrow> (None, [obj])
       | Some err \<Rightarrow>
           if isRequestTooLargeError err
           then sent obj (setRenderingStatusWithRetires p newStatus (d * 2))
           else (Some (APIServerError err (''failed to update '' @ kindName (scope p)
                   @ '' rendering status from parser'')), [obj]))"
  using assms by (subst setRenderingStatusWithRetires.simps) simp

lemma setSyncStatusWithRetries_attempt:
  assumes "0 < sint d" and "Get (client p) = Inr rs"
  shows "setSyncStatusWithRetries p newStatus d =
    (let obj = syncStatusMutation p newStatus d rs in
     if \<not> IsZero (LastUpdate (Sync (Status rs))) \<and> cmp_Equal p (Status rs) (Status obj)
     then (None, [])
     else case Status_Update (client p) obj of
         None \<Rightarrow> (None, [obj])
       | Some err \<Rightarrow>
           if isRequestTooLargeError err
           then sent obj (setSyncStatusWithRetries p newStatus (d * 2))
           else (Some (APIServerError err
                   (case scope p of
                      RootReconciler \<Rightarrow> ''failed to update RootSync sync status''
                    | NamespaceScope ns \<Rightarrow>
                        ''failed to update the RepoSync sync status for the '' @ ns
                        @ '' namespace'')), [obj]))"
  using assms by (subst setSyncStatusWithRetries.simps) simp

lemma sourceStatusMutation_fields:
  "Errors (Source (Status (sourceStatusMutation p newStatus d rs))) = truncateErrors (errs newStatus) d"
  "ErrorSummary (Source (Status (sourceStatusMutation p newStatus d rs))) =
     Some \<lparr>TotalCount = int (length (errs newStatus)), Truncated = (d \<noteq> 1),
           ErrorCountAfterTruncation = int (length (errs newStatus)) div sint d\<rparr>"
  by (simp_all add: sourceStatusMutation_def setSourceStatusFields_def setLastCommit_def Let_def
      split: SourceType.splits)

lemma renderingStatusMutation_fields:
  "Errors (Rendering (Status (renderingStatusMutation p newStatus d rs))) = truncateErrors (errs newStatus) d"
  "ErrorSummary (Rendering (Status (renderingStatusMutation p newStatus d rs))) =
     Some \<lparr>TotalCount = int (length (errs newStatus)), Truncated = (d \<noteq> 1),
           ErrorCountAfterTruncation = 0\<rparr>"
  by (simp_all add: renderingStatusMutation_def setRenderingStatusFields_def setLastCommit_def Let_def
      split: SourceType.splits)

lemma syncStatusMutation_Source:
  "Source (Status (syncStatusMutation p newStatus d rs)) = Source (Status rs)"
  by (simp add: syncStatusMutation_def setLastCommit_def setSyncStatusFields_def
      setSyncStatusErrors_def Let_def split: prod.splits)

lemma syncStatusMutation_Sync:
  "Sync (Status (syncStatusMutation p newStatus d rs)) =
     (Sync (Status rs))\<lparr>Commit := commit newStatus, Git := Git (Source (Status rs)),
        Oci := Oci (Source (Status rs)), Helm := Helm (Source (Status rs)),
        ErrorSummary := Some \<lparr>TotalCount = int (length (errs newStatus)), Truncated = (d \<noteq> 1),
                              ErrorCountAfterTruncation = 0\<rparr>,
        Errors := truncateErrors (errs newStatus) d,
        LastUpdate := lastUpdate newStatus\<rparr>"
  by (simp add: syncStatusMutation_def setLastCommit_def setSyncStatusFields_def
      setSyncStatusErrors_def Let_def split: prod.splits)

lemma syncStatusMutation_fields:
  "Errors (Sync (Status (syncStatusMutation p newStatus d rs))) = truncateErrors (errs newStatus) d"
  "ErrorSummary (Sync (Status (syncStatusMutation p newStatus d rs))) =
     Some \<lparr>TotalCount = int (length (errs newStatus)), Truncated = (d \<noteq> 1),
           ErrorCountAfterTruncation = 0\<rparr>"
  by (simp_all add: syncStatusMutation_Sync)

lemma truncateErrors_prefix:
  assumes "0 < sint d"
  shows "truncateErrors cse d = take (length cse div nat (sint d)) cse"
proof -
  from assms have "int (length cse) div sint d = int (length cse div nat (sint d))"
    by (simp add: zdiv_int)
  then show ?thesis by (simp add: truncateErrors_def)
qed

lemma truncateErrors_halves:
  assumes "0 < sint d" and "0 < sint (d * 2)"
  shows "length (truncateErrors cse (d * 2)) = length (truncateErrors cse d) div 2"
proof -
  from assms have e: "sint (d * 2) = 2 * sint d" by (rule sint_double_pos)
  from assms(1) have n: "nat (2 * sint d) = nat (sint d) * 2" by simp
  have l: "\<And>k. length (take (length cse div k) cse) = length cse div k"
    using div_le_dividend [of "length cse"] by (simp add: min_absorb2)
  show ?thesis
    unfolding truncateErrors_prefix [OF assms(1)] truncateErrors_prefix [OF assms(2)] l e n
    by (simp add: div_mult2_eq)
qed

lemma prependRootSyncRemediatorStatus_attempt:
  assumes "0 < sint d" and "Get cl = Inr rs"
  shows "prependRootSyncRemediatorStatus cl code now name conflictErrs d =
    (let errs' = newConflictErrors code (Errors (Sync (Status rs))) conflictErrs [] in
     if length errs' = 0 then (None, [])
     else
      (let obj = prependedStatus rs errs' now d in
       case Status_Update cl obj of
         None \<Rightarrow> (None, [obj])
       | Some err \<Rightarrow>
           if isRequestTooLargeError err
           then sent obj (prependRootSyncRemediatorStatus cl code now name conflictErrs (d * 2))
           else (Some (APIServerError err ''failed to update RootSync sync status''), [obj])))"
  using assms by (subst prependRootSyncRemediatorStatus.simps) simp

lemma prependedStatus_Errors:
  "Errors (Sync (Status (prependedStatus rs fresh now d))) =
     truncateErrors (fresh @ Errors (Sync (Status rs))) d"
  by (simp add: prependedStatus_def setSyncStatusErrors_def Let_def)

lemma prependedStatus_ErrorSummary:
  "ErrorSummary (Sync (Status (prependedStatus rs fresh now d))) =
     Some \<lparr>TotalCount = int (length (fresh @ Errors (Sync (Status rs)))), Truncated = (d \<noteq> 1),
           ErrorCountAfterTruncation = 0\<rparr>"
  by (simp add: prependedStatus_def setSyncStatusErrors_def Let_def)

lemmas example_defs = exampleParser_def exampleRootSync_def emptyStatus_def emptySection_def
  smallServerParser_def failedSourceStatus_def failedRenderingStatus_def failedSyncStatus_def
  fourErrors_def

lemma smallServer_Get: "Get (client smallServerParser) = Inr exampleRootSync"
  by (simp add: smallServerParser_def exampleParser_def)

lemma smallServer_rejects:
  "Status_Update (client smallServerParser)
     (sourceStatusMutation smallServerParser failedSourceStatus 1 exampleRootSync) =
     Some RequestEntityTooLarge"
  "Status_Update (client smallServerParser)
     (renderingStatusMutation smallServerParser failedRenderingStatus 1 exampleRootSync) =
     Some RequestEntityTooLarge"
  "Status_Update (client smallServerParser)
     (syncStatusMutation smallServerParser failedSyncStatus 1 exampleRootSync) =
     Some RequestEntityTooLarge"
  by (simp_all add: sourceStatusMutation_def renderingStatusMutation_def syncStatusMutation_def
      setSourceStatusFields_def setRenderingStatusFields_def setSyncStatusFields_def
      setSyncStatusErrors_def setLastCommit_def summarizeErrors_def truncateErrors_def Let_def
      example_defs)

lemma example_first_write:
  "IsZero (LastUpdate (Source (Status exampleRootSync)))"
  "IsZero (LastUpdate (Rendering (Status exampleRootSync)))"
  "IsZero (LastUpdate (Sync (Status exampleRootSync)))"
  by (simp_all add: IsZero_def exampleRootSync_def emptyStatus_def emptySection_def)

section \<open>The hydration controller: calls and examples\<close>

lemma runHydrate_calls:
  "snd (snd (runHydrate h env fs c syncDir)) = [Render c]"
  by (simp add: runHydrate_def split: prod.splits option.splits sum.splits)

lemmas hydrator_example_defs = exampleHydrator_def exampleHydratorEnv_def exampleFS_def
  failedFS_def

lemma example_ticks:
  "SourceCommitAndDir exampleHydrator exampleHydratorEnv failedFS = (''abc'', ''abc/acme'', None)"
  "DoneCommit exampleHydratorEnv failedFS = ''abc''"
  "SourceCommitAndDir exampleHydrator exampleHydratorEnv exampleFS = (''abc'', ''abc/acme'', None)"
  "DoneCommit exampleHydratorEnv exampleFS = []"
  "hydratedErrorFile exampleFS = None"
  by (simp_all add: SourceCommitAndDir_def DoneCommit_def hydrator_example_defs)

section \<open>C1: lastSyncedCommit is published only without errors\<close>

lemma sync_sent_is_mutation:
  "rs' \<in> set (snd (setSyncStatusWithRetries p newStatus d)) \<Longrightarrow> Get (client p) = Inr rs \<Longrightarrow>
     \<exists>d'. 0 < sint d' \<and> rs' = syncStatusMutation p newStatus d' rs"
proof (induction p newStatus d rule: setSyncStatusWithRetries.induct)
  case (1 p newStatus denominator)
  show ?case
  proof (cases "sint denominator \<le> 0")
    case True
    with "1.prems" show ?thesis by (simp add: setSyncStatusWithRetries.simps [of p newStatus denominator])
  next
    case False
    let ?rs = "syncStatusMutation p newStatus denominator rs"
    from False have pos: "0 < sint denominator" by simp
    show ?thesis
    proof (cases "rs' = ?rs")
      case True
      with pos show ?thesis by blast
    next
      case ne: False
      with "1.prems" False
      have tl: "rs' \<in> set (snd (setSyncStatusWithRetries p newStatus (denominator * 2)))"
        and c: "Status_Update (client p) ?rs = Some RequestEntityTooLarge"
        and s: "\<not> (\<not> IsZero (LastUpdate (Sync (Status rs))) \<and> cmp_Equal p (Status rs) (Status ?rs))"
        by (auto simp: setSyncStatusWithRetries.simps [of p newStatus denominator] Let_def isRequestTooLargeError_def split: if_splits option.splits prod.splits)
      from c have i: "isRequestTooLargeError RequestEntityTooLarge" by (simp add: isRequestTooLargeError_def)
      show ?thesis
        by (rule "1.IH" [OF False "1.prems"(2) refl s c i tl "1.prems"(2)])
    qed
  qed
qed

lemma syncStatusMutation_LastSyncedCommit:
  "\<not> syncing newStatus \<Longrightarrow>
   LastSyncedCommit (Status (syncStatusMutation p newStatus d rs)) =
     (if TotalCount (snd (summarizeErrors (Source (Status (syncStatusMutation p newStatus d rs)))
                                          (Sync (Status (syncStatusMutation p newStatus d rs))))) = 0
      then commit newStatus else LastSyncedCommit (Status rs))"
  unfolding syncStatusMutation_Source syncStatusMutation_Sync
  by (simp add: syncStatusMutation_def setLastCommit_def setSyncStatusFields_def
      setSyncStatusErrors_def summarizeErrors_def Let_def split: prod.splits)

lemma summarize_total:
  "TotalCount (snd (summarizeErrors src syn)) =
     (case ErrorSummary src of None \<Rightarrow> 0 | Some s \<Rightarrow> TotalCount s)
   + (case ErrorSummary syn of None \<Rightarrow> 0 | Some s \<Rightarrow> TotalCount s)"
  by (simp add: summarizeErrors_def Let_def split: option.splits)

text \<open>
  C1. Every object that \<open>setSyncStatusWithRetries\<close> sends to the API server for a status
  with \<open>syncing = false\<close> (on a RootSync or a RepoSync, at any denominator of the retries)
  carries as \<open>lastSyncedCommit\<close> the sync commit if the combined error summary of the
  source and sync sections has \<open>TotalCount = 0\<close>, and the value fetched from the API
  server otherwise. The source section's count being a count (not negative), a changed
  \<open>lastSyncedCommit\<close> is therefore published together with a sync error count of zero,
  no sync error and no source error.
\<close>

theorem lastSyncedCommit_published_iff_no_errors:
  assumes "rs' \<in> set (snd (setSyncStatusWithRetries p newStatus denominator))"
    and "Get (client p) = Inr rs"
    and "\<not> syncing newStatus"
  shows "LastSyncedCommit (Status rs') =
           (if TotalCount (snd (summarizeErrors (Source (Status rs')) (Sync (Status rs')))) = 0
            then Commit (Sync (Status rs')) else LastSyncedCommit (Status rs))
       \<and> Commit (Sync (Status rs')) = commit newStatus
       \<and> ((\<forall>es. ErrorSummary (Source (Status rs)) = Some es \<longrightarrow> 0 \<le> TotalCount es) \<longrightarrow>
            LastSyncedCommit (Status rs') \<noteq> LastSyncedCommit (Status rs) \<longrightarrow>
              (\<exists>es. ErrorSummary (Sync (Status rs')) = Some es \<and> TotalCount es = 0)
              \<and> errs newStatus = []
              \<and> (\<forall>es. ErrorSummary (Source (Status rs')) = Some es \<longrightarrow> TotalCount es = 0))"
proof -
  from sync_sent_is_mutation [OF assms(1,2)]
  obtain d where rs': "rs' = syncStatusMutation p newStatus d rs" by blast
  have c: "Commit (Sync (Status rs')) = commit newStatus"
    by (simp add: rs' syncStatusMutation_Sync)
  have l: "LastSyncedCommit (Status rs') =
           (if TotalCount (snd (summarizeErrors (Source (Status rs')) (Sync (Status rs')))) = 0
            then Commit (Sync (Status rs')) else LastSyncedCommit (Status rs))"
    unfolding c unfolding rs' by (rule syncStatusMutation_LastSyncedCommit [OF assms(3)])
  have t: "TotalCount (snd (summarizeErrors (Source (Status rs')) (Sync (Status rs')))) =
            (case ErrorSummary (Source (Status rs)) of None \<Rightarrow> 0 | Some s \<Rightarrow> TotalCount s)
            + int (length (errs newStatus))"
    by (simp add: summarize_total rs' syncStatusMutation_Source syncStatusMutation_Sync)
  have s: "ErrorSummary (Sync (Status rs')) =
             Some \<lparr>TotalCount = int (length (errs newStatus)), Truncated = (d \<noteq> 1),
                   ErrorCountAfterTruncation = 0\<rparr>"
    by (simp add: rs' syncStatusMutation_Sync)
  have src: "Source (Status rs') = Source (Status rs)"
    by (simp add: rs' syncStatusMutation_Source)
  show ?thesis
  proof (intro conjI impI)
    show "LastSyncedCommit (Status rs') =
           (if TotalCount (snd (summarizeErrors (Source (Status rs')) (Sync (Status rs')))) = 0
            then Commit (Sync (Status rs')) else LastSyncedCommit (Status rs))" by (rule l)
    show "Commit (Sync (Status rs')) = commit newStatus" by (rule c)
  next
    assume nn: "\<forall>es. ErrorSummary (Source (Status rs)) = Some es \<longrightarrow> 0 \<le> TotalCount es"
      and ch: "LastSyncedCommit (Status rs') \<noteq> LastSyncedCommit (Status rs)"
    from l ch have z: "TotalCount (snd (summarizeErrors (Source (Status rs')) (Sync (Status rs')))) = 0"
      by (simp split: if_splits)
    have ge: "0 \<le> (case ErrorSummary (Source (Status rs)) of None \<Rightarrow> 0 | Some s \<Rightarrow> TotalCount s)"
      using nn by (simp split: option.splits)
    from z t ge have len: "int (length (errs newStatus)) = 0"
      and s00: "(case ErrorSummary (Source (Status rs)) of None \<Rightarrow> 0 | Some s \<Rightarrow> TotalCount s) = 0"
      by linarith+
    from len have e: "errs newStatus = []" by simp
    from s00 have s0: "\<forall>es. ErrorSummary (Source (Status rs')) = Some es \<longrightarrow> TotalCount es = 0"
      by (auto simp: src)
    show "\<exists>es. ErrorSummary (Sync (Status rs')) = Some es \<and> TotalCount es = 0"
      using s e by simp
    show "errs newStatus = []" by (rule e)
    show "\<forall>es. ErrorSummary (Source (Status rs')) = Some es \<longrightarrow> TotalCount es = 0" by (rule s0)
  qed
qed

lemma example_sync_run:
  "setSyncStatusWithRetries exampleParser exampleSyncStatus 1 =
     (None, [syncStatusMutation exampleParser exampleSyncStatus 1 exampleRootSync])"
  by (subst setSyncStatusWithRetries.simps)
     (simp add: exampleParser_def exampleRootSync_def emptyStatus_def emptySection_def IsZero_def)

theorem lastSyncedCommit_published_iff_no_errors_witness:
  "syncStatusMutation exampleParser exampleSyncStatus 1 exampleRootSync
     \<in> set (snd (setSyncStatusWithRetries exampleParser exampleSyncStatus 1))
   \<and> Get (client exampleParser) = Inr exampleRootSync
   \<and> \<not> syncing exampleSyncStatus
   \<and> ErrorSummary (Source (Status exampleRootSync)) = None
   \<and> LastSyncedCommit (Status exampleRootSync) = []
   \<and> LastSyncedCommit (Status (syncStatusMutation exampleParser exampleSyncStatus 1 exampleRootSync)) = ''abc''
   \<and> (\<exists>es. ErrorSummary (Sync (Status (syncStatusMutation exampleParser exampleSyncStatus 1 exampleRootSync))) = Some es
          \<and> TotalCount es = 0)"
proof -
  have a: "syncStatusMutation exampleParser exampleSyncStatus 1 exampleRootSync
     \<in> set (snd (setSyncStatusWithRetries exampleParser exampleSyncStatus 1))"
    by (simp add: example_sync_run)
  have b: "Get (client exampleParser) = Inr exampleRootSync" by (simp add: exampleParser_def)
  have c: "\<not> syncing exampleSyncStatus" by (simp add: exampleSyncStatus_def)
  have d: "\<forall>es. ErrorSummary (Source (Status exampleRootSync)) = Some es \<longrightarrow> 0 \<le> TotalCount es"
    by (simp add: exampleRootSync_def emptyStatus_def emptySection_def)
  have e: "LastSyncedCommit (Status exampleRootSync) = []"
    by (simp add: exampleRootSync_def emptyStatus_def)
  have f: "LastSyncedCommit (Status (syncStatusMutation exampleParser exampleSyncStatus 1 exampleRootSync)) = ''abc''"
    by (simp add: syncStatusMutation_def setLastCommit_def setSyncStatusFields_def
      setSyncStatusErrors_def summarizeErrors_def Let_def exampleSyncStatus_def
      exampleRootSync_def emptyStatus_def emptySection_def)
  have g: "ErrorSummary (Source (Status exampleRootSync)) = None"
    by (simp add: exampleRootSync_def emptyStatus_def emptySection_def)
  from lastSyncedCommit_published_iff_no_errors [OF a b c] d e f
  show ?thesis using a b c g by simp
qed

section \<open>C2: a request that is too large is retried with the denominator doubled\<close>

text \<open>
  C2. Let the source, rendering or sync setter run at a positive denominator \<open>d\<close> on a
  fetched RootSync or RepoSync. If the write of the section is not skipped and the API server
  answers it with a request-entity-too-large error, the setter's result is the result of
  calling itself with \<open>d * 2\<close>, after the failed write. The object written at \<open>d\<close>
  retains the first \<open>n div d\<close> of the \<open>n\<close> errors, its summary has
  \<open>TotalCount = n\<close> and \<open>Truncated = (d \<noteq> 1)\<close>, and the object written at \<open>d * 2\<close>
  (a positive denominator again) retains half as many errors, rounded down. The same holds
  of the sync section as \<open>prependRootSyncRemediatorStatus\<close> writes it, \<open>n\<close> being the
  number of the new conflicts and the existing sync errors together.
\<close>

theorem too_large_retries_with_doubled_denominator:
  assumes "0 < sint d" and "Get (client p) = Inr rs"
    and "fresh = newConflictErrors code (Errors (Sync (Status rs))) conflictErrs []"
  shows
   "((\<not> (\<not> IsZero (LastUpdate (Source (Status rs)))
          \<and> cmp_Equal p (Status rs) (Status (sourceStatusMutation p src d rs))) \<longrightarrow>
       (\<forall>err. Status_Update (client p) (sourceStatusMutation p src d rs) = Some err \<longrightarrow>
              isRequestTooLargeError err \<longrightarrow>
          setSourceStatusWithRetries p src d =
            sent (sourceStatusMutation p src d rs) (setSourceStatusWithRetries p src (d * 2))))
     \<and> Errors (Source (Status (sourceStatusMutation p src d rs))) =
          take (length (errs src) div nat (sint d)) (errs src)
     \<and> (\<exists>es. ErrorSummary (Source (Status (sourceStatusMutation p src d rs))) = Some es
            \<and> TotalCount es = int (length (errs src)) \<and> Truncated es = (d \<noteq> 1))
     \<and> (0 < sint (d * 2) \<longrightarrow>
          length (Errors (Source (Status (sourceStatusMutation p src (d * 2) rs)))) =
          length (Errors (Source (Status (sourceStatusMutation p src d rs)))) div 2))
  \<and> ((\<not> (\<not> IsZero (LastUpdate (Rendering (Status rs)))
          \<and> cmp_Equal p (Status rs) (Status (renderingStatusMutation p ren d rs))) \<longrightarrow>
       (\<forall>err. Status_Update (client p) (renderingStatusMutation p ren d rs) = Some err \<longrightarrow>
              isRequestTooLargeError err \<longrightarrow>
          setRenderingStatusWithRetires p ren d =
            sent (renderingStatusMutation p ren d rs) (setRenderingStatusWithRetires p ren (d * 2))))
     \<and> Errors (Rendering (Status (renderingStatusMutation p ren d rs))) =
          take (length (errs ren) div nat (sint d)) (errs ren)
     \<and> (\<exists>es. ErrorSummary (Rendering (Status (renderingStatusMutation p ren d rs))) = Some es
            \<and> TotalCount es = int (length (errs ren)) \<and> Truncated es = (d \<noteq> 1))
     \<and> (0 < sint (d * 2) \<longrightarrow>
          length (Errors (Rendering (Status (renderingStatusMutation p ren (d * 2) rs)))) =
          length (Errors (Rendering (Status (renderingStatusMutation p ren d rs)))) div 2))
  \<and> ((\<not> (\<not> IsZero (LastUpdate (Sync (Status rs)))
          \<and> cmp_Equal p (Status rs) (Status (syncStatusMutation p syn d rs))) \<longrightarrow>
       (\<forall>err. Status_Update (client p) (syncStatusMutation p syn d rs) = Some err \<longrightarrow>
              isRequestTooLargeError err \<longrightarrow>
          setSyncStatusWithRetries p syn d =
            sent (syncStatusMutation p syn d rs) (setSyncStatusWithRetries p syn (d * 2))))
     \<and> Errors (Sync (Status (syncStatusMutation p syn d rs))) =
          take (length (errs syn) div nat (sint d)) (errs syn)
     \<and> (\<exists>es. ErrorSummary (Sync (Status (syncStatusMutation p syn d rs))) = Some es
            \<and> TotalCount es = int (length (errs syn)) \<and> Truncated es = (d \<noteq> 1))
     \<and> (0 < sint (d * 2) \<longrightarrow>
          length (Errors (Sync (Status (syncStatusMutation p syn (d * 2) rs)))) =
          length (Errors (Sync (Status (syncStatusMutation p syn d rs)))) div 2))
  \<and> ((fresh \<noteq> [] \<longrightarrow>
       (\<forall>err. Status_Update (client p) (prependedStatus rs fresh now d) = Some err \<longrightarrow>
              isRequestTooLargeError err \<longrightarrow>
          prependRootSyncRemediatorStatus (client p) code now name conflictErrs d =
            sent (prependedStatus rs fresh now d)
              (prependRootSyncRemediatorStatus (client p) code now name conflictErrs (d * 2))))
     \<and> Errors (Sync (Status (prependedStatus rs fresh now d))) =
          take (length (fresh @ Errors (Sync (Status rs))) div nat (sint d))
               (fresh @ Errors (Sync (Status rs)))
     \<and> (\<exists>es. ErrorSummary (Sync (Status (prependedStatus rs fresh now d))) = Some es
            \<and> TotalCount es = int (length (fresh @ Errors (Sync (Status rs))))
            \<and> Truncated es = (d \<noteq> 1))
     \<and> (0 < sint (d * 2) \<longrightarrow>
          length (Errors (Sync (Status (prependedStatus rs fresh now (d * 2))))) =
          length (Errors (Sync (Status (prependedStatus rs fresh now d)))) div 2))"
proof (intro conjI impI allI)
  fix err
  assume "fresh \<noteq> []"
    and "Status_Update (client p) (prependedStatus rs fresh now d) = Some err"
    and "isRequestTooLargeError err"
  then show "prependRootSyncRemediatorStatus (client p) code now name conflictErrs d =
            sent (prependedStatus rs fresh now d)
              (prependRootSyncRemediatorStatus (client p) code now name conflictErrs (d * 2))"
    by (simp add: prependRootSyncRemediatorStatus_attempt [OF assms(1,2)] assms(3) [symmetric])
next
  assume "0 < sint (d * 2)"
  with assms(1) show "length (Errors (Sync (Status (prependedStatus rs fresh now (d * 2))))) =
          length (Errors (Sync (Status (prependedStatus rs fresh now d)))) div 2"
    by (simp only: prependedStatus_Errors truncateErrors_halves)
next
  fix err
  assume "\<not> (\<not> IsZero (LastUpdate (Source (Status rs)))
          \<and> cmp_Equal p (Status rs) (Status (sourceStatusMutation p src d rs)))"
    and "Status_Update (client p) (sourceStatusMutation p src d rs) = Some err"
    and "isRequestTooLargeError err"
  then show "setSourceStatusWithRetries p src d =
            sent (sourceStatusMutation p src d rs) (setSourceStatusWithRetries p src (d * 2))"
    by (auto simp add: setSourceStatusWithRetries_attempt [OF assms(1,2)] Let_def)
next
  fix err
  assume "\<not> (\<not> IsZero (LastUpdate (Rendering (Status rs)))
          \<and> cmp_Equal p (Status rs) (Status (renderingStatusMutation p ren d rs)))"
    and "Status_Update (client p) (renderingStatusMutation p ren d rs) = Some err"
    and "isRequestTooLargeError err"
  then show "setRenderingStatusWithRetires p ren d =
            sent (renderingStatusMutation p ren d rs) (setRenderingStatusWithRetires p ren (d * 2))"
    by (auto simp add: setRenderingStatusWithRetires_attempt [OF assms(1,2)] Let_def)
next
  fix err
  assume "\<not> (\<not> IsZero (LastUpdate (Sync (Status rs)))
          \<and> cmp_Equal p (Status rs) (Status (syncStatusMutation p syn d rs)))"
    and "Status_Update (client p) (syncStatusMutation p syn d rs) = Some err"
    and "isRequestTooLargeError err"
  then show "setSyncStatusWithRetries p syn d =
            sent (syncStatusMutation p syn d rs) (setSyncStatusWithRetries p syn (d * 2))"
    by (auto simp add: setSyncStatusWithRetries_attempt [OF assms(1,2)] Let_def)
next
  assume "0 < sint (d * 2)"
  with assms(1) show "length (Errors (Source (Status (sourceStatusMutation p src (d * 2) rs)))) =
          length (Errors (Source (Status (sourceStatusMutation p src d rs)))) div 2"
    by (simp only: sourceStatusMutation_fields truncateErrors_halves)
next
  assume "0 < sint (d * 2)"
  with assms(1) show "length (Errors (Rendering (Status (renderingStatusMutation p ren (d * 2) rs)))) =
          length (Errors (Rendering (Status (renderingStatusMutation p ren d rs)))) div 2"
    by (simp only: renderingStatusMutation_fields truncateErrors_halves)
next
  assume "0 < sint (d * 2)"
  with assms(1) show "length (Errors (Sync (Status (syncStatusMutation p syn (d * 2) rs)))) =
          length (Errors (Sync (Status (syncStatusMutation p syn d rs)))) div 2"
    by (simp only: syncStatusMutation_fields truncateErrors_halves)
qed (simp_all add: sourceStatusMutation_fields renderingStatusMutation_fields
       syncStatusMutation_fields prependedStatus_Errors prependedStatus_ErrorSummary
       truncateErrors_prefix [OF assms(1)])

theorem too_large_retries_with_doubled_denominator_witness:
  "0 < sint (1 :: go_int)
   \<and> Get (client smallServerParser) = Inr exampleRootSync
   \<and> Status_Update (client smallServerParser)
        (sourceStatusMutation smallServerParser failedSourceStatus 1 exampleRootSync) =
        Some RequestEntityTooLarge
   \<and> setSourceStatusWithRetries smallServerParser failedSourceStatus 1 =
        sent (sourceStatusMutation smallServerParser failedSourceStatus 1 exampleRootSync)
          (setSourceStatusWithRetries smallServerParser failedSourceStatus (1 * 2))
   \<and> setRenderingStatusWithRetires smallServerParser failedRenderingStatus 1 =
        sent (renderingStatusMutation smallServerParser failedRenderingStatus 1 exampleRootSync)
          (setRenderingStatusWithRetires smallServerParser failedRenderingStatus (1 * 2))
   \<and> setSyncStatusWithRetries smallServerParser failedSyncStatus 1 =
        sent (syncStatusMutation smallServerParser failedSyncStatus 1 exampleRootSync)
          (setSyncStatusWithRetries smallServerParser failedSyncStatus (1 * 2))
   \<and> length (Errors (Source (Status
        (sourceStatusMutation smallServerParser failedSourceStatus 1 exampleRootSync)))) = 4
   \<and> length (Errors (Source (Status
        (sourceStatusMutation smallServerParser failedSourceStatus (1 * 2) exampleRootSync)))) = 2"
proof -
  have p: "0 < sint (1 :: go_int)" by simp
  have p2: "0 < sint ((1 :: go_int) * 2)" by simp
  note t = too_large_retries_with_doubled_denominator [OF p smallServer_Get refl,
      where src = failedSourceStatus and ren = failedRenderingStatus and syn = failedSyncStatus]
  have l: "length (Errors (Source (Status
        (sourceStatusMutation smallServerParser failedSourceStatus 1 exampleRootSync)))) = 4"
    using t by (simp add: failedSourceStatus_def fourErrors_def)
  from t p2 l show ?thesis
    using example_first_write smallServer_rejects smallServer_Get
    by (simp add: isRequestTooLargeError_def del: mult_1 mult_1_left One_nat_def)
qed

text \<open>
  Go's \<open>int\<close> has 64 bits: the double of \<open>2 ^ 62\<close> is not positive, and the call with
  it returns the error of the guard without a write.
\<close>

lemma retry_stops_when_the_denominator_wraps:
  "setSourceStatusWithRetries p src (2 ^ 62 * 2) =
     (Some (Errorf ''The denominator must be a positive number''), [])"
  "setRenderingStatusWithRetires p ren (2 ^ 62 * 2) =
     (Some (Errorf ''The denominator must be a positive number''), [])"
  "setSyncStatusWithRetries p syn (2 ^ 62 * 2) =
     (Some (Errorf ''The denominator must be a positive number''), [])"
  by (subst setSourceStatusWithRetries.simps setRenderingStatusWithRetires.simps
        setSyncStatusWithRetries.simps, simp)+

section \<open>C3: a resourceVersion already reconciled\<close>

text \<open>
  The resourceVersion recorded is the one the object had when \<open>updateStatus\<close> sent its
  update, before the API server answered with a new one: a cache that has not yet seen the
  update returns the object with exactly this version.
\<close>

lemma updateStatus_records_observed_version:
  assumes "\<not> mgr_cmp_Equal env (Status currentRS)
              (Status (rs\<lparr>Status := (Status rs)\<lparr>ObservedGeneration := Generation rs\<rparr>\<rparr>))"
    and "mgr_Status_Update env (rs\<lparr>Status := (Status rs)\<lparr>ObservedGeneration := Generation rs\<rparr>\<rparr>) = None"
  shows "isLastReconciled (fst (snd (updateStatus env r currentRS rs))) (Namespace rs, Name rs)
           (ResourceVersion rs)"
  using assms by (simp add: updateStatus_def Let_def isLastReconciled_def setLastReconciled_def)

text \<open>
  C3, as amended. When the RepoSync that \<open>Reconcile\<close> fetches has the resourceVersion
  recorded for it, \<open>Reconcile\<close> returns the error "ResourceVersion already reconciled", so
  that the request is retried, and does nothing else: it neither updates the status nor
  upserts an owned object, and the controller is as before.
\<close>

theorem reconcile_of_recorded_version_returns_error:
  assumes "mgr_Get env rsRef = Inr rs"
    and "isLastReconciled r rsRef (ResourceVersion rs)"
  shows "Reconcile env r rsRef =
           (Some (Errorf (''ResourceVersion already reconciled: '' @ ResourceVersion rs)), r, [])"
  using assms by (simp add: Reconcile_def)

lemma stale_example:
  "mgr_Get exampleEnv (''bookstore'', ''repo-sync'') = Inr exampleRepoSync"
  "isLastReconciled staleController (''bookstore'', ''repo-sync'') (ResourceVersion exampleRepoSync)"
  "ResourceVersion exampleRepoSync = ''7''"
  by (simp_all add: exampleEnv_def isLastReconciled_def staleController_def exampleRepoSync_def)

theorem reconcile_of_recorded_version_returns_error_witness:
  "mgr_Get exampleEnv (''bookstore'', ''repo-sync'') = Inr exampleRepoSync
   \<and> isLastReconciled staleController (''bookstore'', ''repo-sync'') (ResourceVersion exampleRepoSync)
   \<and> Reconcile exampleEnv staleController (''bookstore'', ''repo-sync'') =
       (Some (Errorf ''ResourceVersion already reconciled: 7''), staleController, [])"
  using reconcile_of_recorded_version_returns_error [OF stale_example(1,2)] stale_example
  by simp

text \<open>
  The claim as stated fails: the RepoSync observed has the recorded resourceVersion, and
  \<open>Reconcile\<close> returns an error without upserting any owned object, although every upsert
  would succeed.
\<close>

theorem reconcile_of_recorded_version_counterexample:
  "isLastReconciled staleController (''bookstore'', ''repo-sync'') (ResourceVersion exampleRepoSync)
   \<and> fst (Reconcile exampleEnv staleController (''bookstore'', ''repo-sync'')) \<noteq> None
   \<and> snd (snd (Reconcile exampleEnv staleController (''bookstore'', ''repo-sync''))) = []
   \<and> snd (snd (Reconcile exampleEnv freshController (''bookstore'', ''repo-sync''))) =
       [UpsertAuthSecret, UpsertCACertSecret, UpsertServiceAccount, UpsertRoleBinding,
        DeleteNotificationCR, UpsertDeployment,
        StatusUpdate (exampleRepoSync\<lparr>Status := emptyStatus\<lparr>
          ObservedGeneration := 1,
          Reconciler := ''ns-reconciler-bookstore-repo-sync'',
          Conditions := [\<lparr>Type = Reconciling, CondStatus = ConditionTrue,
                          Reason = ''Deployment'', CondMessage = ''Replicas: 0/1''\<rparr>]\<rparr>\<rparr>)]"
  by (simp add: Reconcile_def reconcileOwnedObjects_def reconcileDeploymentStatus_def
      updateStatus_def stalledBy_def stalledByValidation_def validateNamespaceName_def
      SetReconciling_def ClearCondition_def setCondition_def
      isLastReconciled_def staleController_def freshController_def exampleEnv_def
      exampleRepoSync_def emptyStatus_def emptySection_def ControllerNamespace_def Let_def)

section \<open>C4: a RepoSync in the controller namespace\<close>

text \<open>
  C4, as amended. For a request in the controller namespace whose RepoSync is fetched
  with a resourceVersion other than the recorded one, \<open>Reconcile\<close> sets the Stalled
  condition to True with the reason Validation, attempts at most the update of the status
  that carries this condition and no upsert, and returns \<open>nil\<close> unless that update fails,
  in which case it returns the error of the update.
\<close>

theorem reposync_in_controller_namespace_is_stalled:
  assumes "fst rsRef = ControllerNamespace"
    and "mgr_Get env rsRef = Inr rs"
    and "\<not> isLastReconciled r rsRef (ResourceVersion rs)"
    and "stalled = SetStalled rs ''Validation''
           (Errorf (''RepoSync objects are not allowed in the '' @ ControllerNamespace
                    @ '' namespace''))"
    and "written = stalled\<lparr>Status := (Status stalled)\<lparr>ObservedGeneration := Generation stalled\<rparr>\<rparr>"
  shows "(\<exists>c\<in>set (Conditions (Status written)).
            Type c = Stalled \<and> CondStatus c = ConditionTrue \<and> Reason c = ''Validation'')
       \<and> Reconcile env r rsRef =
           (if mgr_cmp_Equal env (Status rs) (Status written) then (None, r, [])
            else case mgr_Status_Update env written of
                   None \<Rightarrow> (None, setLastReconciled r (Namespace rs, Name rs) (ResourceVersion rs),
                             [StatusUpdate written])
                 | Some err \<Rightarrow> (Some (APIError err), r, [StatusUpdate written]))
       \<and> set (snd (snd (Reconcile env r rsRef))) \<subseteq> {StatusUpdate written}
       \<and> (fst (Reconcile env r rsRef) \<noteq> None \<longrightarrow>
            StatusUpdate written \<in> set (snd (snd (Reconcile env r rsRef)))
            \<and> (\<exists>err. mgr_Status_Update env written = Some err
                     \<and> fst (Reconcile env r rsRef) = Some (APIError err)))"
proof -
  have c: "\<exists>c\<in>set (Conditions (Status written)).
            Type c = Stalled \<and> CondStatus c = ConditionTrue \<and> Reason c = ''Validation''"
    by (simp add: assms(4,5) SetStalled_def setCondition_def)
  have rv: "ResourceVersion written = ResourceVersion rs" "Namespace written = Namespace rs"
    "Name written = Name rs"
    by (simp_all add: assms(4,5) SetStalled_def)
  have r: "Reconcile env r rsRef =
           (if mgr_cmp_Equal env (Status rs) (Status written) then (None, r, [])
            else case mgr_Status_Update env written of
                   None \<Rightarrow> (None, setLastReconciled r (Namespace rs, Name rs) (ResourceVersion rs),
                             [StatusUpdate written])
                 | Some err \<Rightarrow> (Some (APIError err), r, [StatusUpdate written]))"
    unfolding assms(5) assms(4) using assms(1,2,3)
    by (simp add: Reconcile_def validateNamespaceName_def stalledByValidation_def
        updateStatus_def SetStalled_def Let_def split: option.splits)
  show ?thesis
    unfolding r using c by (auto split: option.splits)
qed

lemma misplaced_example:
  "fst (ControllerNamespace, ''repo-sync'') = ControllerNamespace"
  "mgr_Get exampleEnv (ControllerNamespace, ''repo-sync'') = Inr misplacedRepoSync"
  "\<not> isLastReconciled freshController (ControllerNamespace, ''repo-sync'')
       (ResourceVersion misplacedRepoSync)"
  "isLastReconciled staleController (ControllerNamespace, ''repo-sync'')
       (ResourceVersion misplacedRepoSync)"
  by (simp_all add: exampleEnv_def isLastReconciled_def freshController_def staleController_def
      misplacedRepoSync_def exampleRepoSync_def ControllerNamespace_def)

theorem reposync_in_controller_namespace_is_stalled_witness:
  "fst (ControllerNamespace, ''repo-sync'') = ControllerNamespace
   \<and> mgr_Get exampleEnv (ControllerNamespace, ''repo-sync'') = Inr misplacedRepoSync
   \<and> \<not> isLastReconciled freshController (ControllerNamespace, ''repo-sync'')
         (ResourceVersion misplacedRepoSync)
   \<and> Reconcile exampleEnv freshController (ControllerNamespace, ''repo-sync'') =
       (None,
        setLastReconciled freshController (ControllerNamespace, ''repo-sync'') ''7'',
        [StatusUpdate stalledRepoSync])"
proof -
  have s: "stalledRepoSync =
      (SetStalled misplacedRepoSync ''Validation''
           (Errorf (''RepoSync objects are not allowed in the '' @ ControllerNamespace
                    @ '' namespace'')))\<lparr>Status := (Status (SetStalled misplacedRepoSync ''Validation''
           (Errorf (''RepoSync objects are not allowed in the '' @ ControllerNamespace
                    @ '' namespace''))))\<lparr>ObservedGeneration := Generation (SetStalled misplacedRepoSync ''Validation''
           (Errorf (''RepoSync objects are not allowed in the '' @ ControllerNamespace
                    @ '' namespace'')))\<rparr>\<rparr>"
    by (simp add: stalledRepoSync_def SetStalled_def setCondition_def misplacedRepoSync_def
        exampleRepoSync_def emptyStatus_def ControllerNamespace_def)
  have n: "\<not> mgr_cmp_Equal exampleEnv (Status misplacedRepoSync) (Status stalledRepoSync)"
    "mgr_Status_Update exampleEnv stalledRepoSync = None"
    "Namespace misplacedRepoSync = ControllerNamespace" "Name misplacedRepoSync = ''repo-sync''"
    "ResourceVersion misplacedRepoSync = ''7''"
    by (simp_all add: exampleEnv_def stalledRepoSync_def misplacedRepoSync_def exampleRepoSync_def
        emptyStatus_def)
  from reposync_in_controller_namespace_is_stalled [OF misplaced_example(1,2,3) refl s]
  show ?thesis using misplaced_example n by simp
qed

text \<open>
  The claim as stated fails for a RepoSync in the controller namespace that is observed
  with the recorded resourceVersion: \<open>Reconcile\<close> returns an error although no status
  update failed (none was attempted).
\<close>

theorem reposync_in_controller_namespace_counterexample:
  "fst (ControllerNamespace, ''repo-sync'') = ControllerNamespace
   \<and> mgr_Get exampleEnv (ControllerNamespace, ''repo-sync'') = Inr misplacedRepoSync
   \<and> Namespace misplacedRepoSync = ControllerNamespace
   \<and> Reconcile exampleEnv staleController (ControllerNamespace, ''repo-sync'') =
       (Some (Errorf ''ResourceVersion already reconciled: 7''), staleController, [])"
  using misplaced_example
  by (simp add: Reconcile_def misplacedRepoSync_def exampleRepoSync_def)

section \<open>C5: implicit namespaces\<close>










section \<open>C6: remediator conflicts are prepended, without duplicates\<close>

lemma errorFound_iff:
  "errorFound code c pc es \<longleftrightarrow>
     (\<exists>e\<in>set es. Code e = code \<and> (ErrorMessage e = ErrorMessage c \<or> ErrorMessage e = ErrorMessage pc))"
  by (induction es) auto

lemma newConflictErrors_eq:
  "newConflictErrors code syncErrors conflictErrs acc =
     acc @ map ToCSE (filter (\<lambda>c. \<not> errorFound code (ToCSE c) (CurrentManagerError_ToCSE c) syncErrors)
                        conflictErrs)"
  by (induction conflictErrs arbitrary: acc) (simp_all add: Let_def)

lemma prepend_no_new_conflicts:
  assumes "newConflictErrors code (Errors (Sync (Status rs))) conflictErrs [] = []"
    and "Get cl = Inr rs"
  shows "snd (prependRootSyncRemediatorStatus cl code now name conflictErrs d) = []"
  using assms by (subst prependRootSyncRemediatorStatus.simps) simp

lemma truncateErrors_one: "truncateErrors cse 1 = cse"
  by (simp add: truncateErrors_def)

text \<open>
  C6. Let \<open>fresh\<close> be the supplied conflicts, in order and as \<open>ToCSE()\<close> gives them,
  without those for which the RootSync fetched already has a sync error with the code
  \<open>ManagementConflictErrorCode\<close> and the message of the conflict or of its current-manager
  form. If \<open>fresh\<close> is empty, \<open>prependRootSyncRemediatorStatus\<close> makes no status
  update call and returns \<open>nil\<close>. Otherwise the object it sends first carries the sync
  errors \<open>fresh\<close> followed by the existing ones, cut to their first
  \<open>n div denominator\<close>: all of them at the denominator 1.
\<close>

theorem remediator_conflicts_are_prepended_without_duplicates:
  assumes "Get cl = Inr rs"
    and "fresh = map ToCSE (filter (\<lambda>c. \<not> (\<exists>e\<in>set (Errors (Sync (Status rs))). Code e = code
             \<and> (ErrorMessage e = ErrorMessage (ToCSE c)
                \<or> ErrorMessage e = ErrorMessage (CurrentManagerError_ToCSE c)))) conflictErrs)"
  shows "(fresh = [] \<longrightarrow>
            snd (prependRootSyncRemediatorStatus cl code now name conflictErrs d) = [])
       \<and> (0 < sint d \<longrightarrow> fresh = [] \<longrightarrow>
            prependRootSyncRemediatorStatus cl code now name conflictErrs d = (None, []))
       \<and> (0 < sint d \<longrightarrow> fresh \<noteq> [] \<longrightarrow>
            (\<exists>ws. snd (prependRootSyncRemediatorStatus cl code now name conflictErrs d) =
                     prependedStatus rs fresh now d # ws)
            \<and> Errors (Sync (Status (prependedStatus rs fresh now d))) =
                take (length (fresh @ Errors (Sync (Status rs))) div nat (sint d))
                     (fresh @ Errors (Sync (Status rs)))
            \<and> Errors (Sync (Status (prependedStatus rs fresh now 1))) =
                fresh @ Errors (Sync (Status rs)))"
proof -
  have n: "newConflictErrors code (Errors (Sync (Status rs))) conflictErrs [] = fresh"
    by (simp add: newConflictErrors_eq errorFound_iff assms(2))
  show ?thesis
  proof (intro conjI impI)
    assume "fresh = []"
    with n show "snd (prependRootSyncRemediatorStatus cl code now name conflictErrs d) = []"
      by (simp add: prepend_no_new_conflicts [OF _ assms(1)])
  next
    assume "0 < sint d" and "fresh = []"
    with n show "prependRootSyncRemediatorStatus cl code now name conflictErrs d = (None, [])"
      by (simp add: prependRootSyncRemediatorStatus_attempt [OF _ assms(1)])
  next
    assume "0 < sint d" and "fresh \<noteq> []"
    with n show "\<exists>ws. snd (prependRootSyncRemediatorStatus cl code now name conflictErrs d) =
                     prependedStatus rs fresh now d # ws"
      by (simp add: prependRootSyncRemediatorStatus_attempt [OF _ assms(1)] Let_def
          split: option.splits)
  next
    assume "0 < sint d"
    then show "Errors (Sync (Status (prependedStatus rs fresh now d))) =
                take (length (fresh @ Errors (Sync (Status rs))) div nat (sint d))
                     (fresh @ Errors (Sync (Status rs)))"
      by (simp only: prependedStatus_Errors truncateErrors_prefix)
  next
    show "Errors (Sync (Status (prependedStatus rs fresh now 1))) =
                fresh @ Errors (Sync (Status rs))"
      by (simp only: prependedStatus_Errors truncateErrors_one)
  qed
qed

theorem remediator_conflicts_are_prepended_without_duplicates_witness:
  "Get conflictedClient = Inr conflictedRootSync
   \<and> 0 < sint (1 :: go_int)
   \<and> snd (prependRootSyncRemediatorStatus conflictedClient ''1060'' 7 ''root-sync'' [conflictA] 1) = []
   \<and> snd (prependRootSyncRemediatorStatus conflictedClient ''1060'' 7 ''root-sync''
            [conflictA, conflictB] 1) =
        [prependedStatus conflictedRootSync [ToCSE conflictB] 7 1]
   \<and> Errors (Sync (Status (prependedStatus conflictedRootSync [ToCSE conflictB] 7 1))) =
        [\<lparr>Code = ''1060'', ErrorMessage = ''conflict on b''\<rparr>,
         \<lparr>Code = ''1060'', ErrorMessage = ''a is managed by x''\<rparr>,
         \<lparr>Code = ''2009'', ErrorMessage = ''apply failed''\<rparr>]"
proof -
  have g: "Get conflictedClient = Inr conflictedRootSync" by (simp add: conflictedClient_def)
  have p: "0 < sint (1 :: go_int)" by simp
  have e: "Errors (Sync (Status conflictedRootSync)) =
      [\<lparr>Code = ''1060'', ErrorMessage = ''a is managed by x''\<rparr>,
       \<lparr>Code = ''2009'', ErrorMessage = ''apply failed''\<rparr>]"
    by (simp add: conflictedRootSync_def)
  have fa: "[] = map ToCSE (filter (\<lambda>c. \<not> (\<exists>e\<in>set (Errors (Sync (Status conflictedRootSync))).
             Code e = ''1060''
             \<and> (ErrorMessage e = ErrorMessage (ToCSE c)
                \<or> ErrorMessage e = ErrorMessage (CurrentManagerError_ToCSE c)))) [conflictA])"
    by (simp add: e conflictA_def)
  have fb: "[ToCSE conflictB] = map ToCSE (filter (\<lambda>c. \<not> (\<exists>e\<in>set (Errors (Sync (Status conflictedRootSync))).
             Code e = ''1060''
             \<and> (ErrorMessage e = ErrorMessage (ToCSE c)
                \<or> ErrorMessage e = ErrorMessage (CurrentManagerError_ToCSE c)))) [conflictA, conflictB])"
    by (simp add: e conflictA_def conflictB_def)
  have u: "Status_Update conflictedClient
             (prependedStatus conflictedRootSync [ToCSE conflictB] 7 1) = None"
    by (simp add: conflictedClient_def)
  have r: "snd (prependRootSyncRemediatorStatus conflictedClient ''1060'' 7 ''root-sync''
            [conflictA, conflictB] 1) =
        [prependedStatus conflictedRootSync [ToCSE conflictB] 7 1]"
  proof -
    have n: "newConflictErrors ''1060'' (Errors (Sync (Status conflictedRootSync)))
               [conflictA, conflictB] [] = [ToCSE conflictB]"
      by (simp add: e conflictA_def conflictB_def Let_def)
    show ?thesis
      unfolding prependRootSyncRemediatorStatus_attempt [OF p g] n
      by (simp add: u)
  qed
  from remediator_conflicts_are_prepended_without_duplicates [OF g fa, where now = 7 and name = "''root-sync''" and d = 1]
       remediator_conflicts_are_prepended_without_duplicates [OF g fb, where now = 7 and name = "''root-sync''" and d = 1]
  show ?thesis using g p r e by (simp add: conflictB_def)
qed

section \<open>C7: the timers of the hydration controller\<close>

lemma hydrate_calls:
  "set (snd (snd (hydrate h env fs c syncDir))) \<subseteq> {Render c}"
  by (auto simp add: hydrate_def runHydrate_calls split: sum.splits option.splits)

lemma runTimerTick_calls:
  assumes "x \<in> set (snd (runTimerTick h env fs))"
  shows "\<exists>c syncDir. SourceCommitAndDir h env fs = (c, syncDir, None) \<and> DoneCommit env fs \<noteq> c
           \<and> (x = Hydrate c \<or> x = Render c \<or> x = Complete c)"
proof -
  obtain c syncDir e where s: "SourceCommitAndDir h env fs = (c, syncDir, e)"
    by (cases "SourceCommitAndDir h env fs") auto
  show ?thesis
  proof (cases "e = None \<and> DoneCommit env fs \<noteq> c")
    case False
    with assms s show ?thesis by (auto simp add: runTimerTick_def split: option.splits)
  next
    case True
    obtain he fs' calls where hy: "hydrate h env fs c syncDir = (he, fs', calls)"
      by (cases "hydrate h env fs c syncDir") auto
    from hydrate_calls [of h env fs c syncDir] hy have "set calls \<subseteq> {Render c}" by simp
    with assms s True hy show ?thesis
      by (auto simp add: runTimerTick_def split: prod.splits)
  qed
qed

lemma rehydrateTimerTick_calls:
  assumes "x \<in> set (snd (rehydrateTimerTick h env fs))"
  shows "\<exists>c syncDir. SourceCommitAndDir h env fs = (c, syncDir, None)
           \<and> hydratedErrorFile fs \<noteq> None \<and> statErrorFileErr env = None
           \<and> (x = Render c \<or> x = Complete c)"
proof -
  obtain c syncDir e where s: "SourceCommitAndDir h env fs = (c, syncDir, e)"
    by (cases "SourceCommitAndDir h env fs") auto
  show ?thesis
  proof (cases "e = None \<and> hydratedErrorFile fs \<noteq> None \<and> statErrorFileErr env = None")
    case False
    with assms s show ?thesis
      by (auto simp add: rehydrateTimerTick_def rehydrateOnError_def split: option.splits)
  next
    case True
    obtain he fs' calls where hy: "runHydrate h env fs c syncDir = (he, fs', calls)"
      by (cases "runHydrate h env fs c syncDir") auto
    from runHydrate_calls [of h env fs c syncDir] hy have "calls = [Render c]" by simp
    with assms s True hy show ?thesis
      by (auto simp add: rehydrateTimerTick_def rehydrateOnError_def split: prod.splits)
  qed
qed

lemma DoneCommit_file:
  "DoneCommit env fs =
     (if statDoneErr env = None \<and> readDoneErr env = None
      then (case doneFile fs of None \<Rightarrow> [] | Some c \<Rightarrow> c) else [])"
  by (simp add: DoneCommit_def split: option.splits)

lemma DoneCommit_recorded:
  assumes "DoneCommit env fs \<noteq> c"
  shows "doneFile fs \<noteq> Some c \<or> statDoneErr env \<noteq> None \<or> readDoneErr env \<noteq> None"
  using assms by (auto simp add: DoneCommit_def split: option.splits)

lemma Run_calls:
  "x \<in> set (snd (Run h env events fs)) \<Longrightarrow>
     \<exists>pre e post. events = pre @ e # post \<and> ContextDone \<notin> set pre
        \<and> (e = RunTick \<and> x \<in> set (snd (runTimerTick h env (fst (Run h env pre fs))))
           \<or> e = RehydrateTick
             \<and> x \<in> set (snd (rehydrateTimerTick h env (fst (Run h env pre fs)))))"
proof (induction events arbitrary: fs)
  case Nil
  then show ?case by simp
next
  case (Cons e events)
  show ?case
  proof (cases e)
    case ContextDone
    with Cons.prems show ?thesis by simp
  next
    case RehydrateTick
    obtain fs1 calls where t: "rehydrateTimerTick h env fs = (fs1, calls)"
      by (cases "rehydrateTimerTick h env fs") auto
    with Cons.prems RehydrateTick
    have "x \<in> set calls \<or> x \<in> set (snd (Run h env events fs1))"
      by (auto split: prod.splits)
    then show ?thesis
    proof
      assume "x \<in> set calls"
      with t have "x \<in> set (snd (rehydrateTimerTick h env (fst (Run h env [] fs))))" by simp
      with RehydrateTick have "e # events = [] @ e # events \<and> ContextDone \<notin> set []
        \<and> (e = RunTick \<and> x \<in> set (snd (runTimerTick h env (fst (Run h env [] fs))))
           \<or> e = RehydrateTick
             \<and> x \<in> set (snd (rehydrateTimerTick h env (fst (Run h env [] fs)))))"
        by simp
      then show ?thesis by blast
    next
      assume "x \<in> set (snd (Run h env events fs1))"
      from Cons.IH [OF this] obtain pre e' post
        where p: "events = pre @ e' # post" "ContextDone \<notin> set pre"
          "e' = RunTick \<and> x \<in> set (snd (runTimerTick h env (fst (Run h env pre fs1))))
           \<or> e' = RehydrateTick
             \<and> x \<in> set (snd (rehydrateTimerTick h env (fst (Run h env pre fs1))))"
        by blast
      have r: "fst (Run h env (e # pre) fs) = fst (Run h env pre fs1)"
        by (simp add: RehydrateTick t split: prod.splits)
      from p RehydrateTick have "e # events = (e # pre) @ e' # post \<and> ContextDone \<notin> set (e # pre)
        \<and> (e' = RunTick \<and> x \<in> set (snd (runTimerTick h env (fst (Run h env (e # pre) fs))))
           \<or> e' = RehydrateTick
             \<and> x \<in> set (snd (rehydrateTimerTick h env (fst (Run h env (e # pre) fs)))))"
        unfolding r by simp
      then show ?thesis by blast
    qed
  next
    case RunTick
    obtain fs1 calls where t: "runTimerTick h env fs = (fs1, calls)"
      by (cases "runTimerTick h env fs") auto
    with Cons.prems RunTick
    have "x \<in> set calls \<or> x \<in> set (snd (Run h env events fs1))"
      by (auto split: prod.splits)
    then show ?thesis
    proof
      assume "x \<in> set calls"
      with t have "x \<in> set (snd (runTimerTick h env (fst (Run h env [] fs))))" by simp
      with RunTick have "e # events = [] @ e # events \<and> ContextDone \<notin> set []
        \<and> (e = RunTick \<and> x \<in> set (snd (runTimerTick h env (fst (Run h env [] fs))))
           \<or> e = RehydrateTick
             \<and> x \<in> set (snd (rehydrateTimerTick h env (fst (Run h env [] fs)))))"
        by simp
      then show ?thesis by blast
    next
      assume "x \<in> set (snd (Run h env events fs1))"
      from Cons.IH [OF this] obtain pre e' post
        where p: "events = pre @ e' # post" "ContextDone \<notin> set pre"
          "e' = RunTick \<and> x \<in> set (snd (runTimerTick h env (fst (Run h env pre fs1))))
           \<or> e' = RehydrateTick
             \<and> x \<in> set (snd (rehydrateTimerTick h env (fst (Run h env pre fs1))))"
        by blast
      have r: "fst (Run h env (e # pre) fs) = fst (Run h env pre fs1)"
        by (simp add: RunTick t split: prod.splits)
      from p RunTick have "e # events = (e # pre) @ e' # post \<and> ContextDone \<notin> set (e # pre)
        \<and> (e' = RunTick \<and> x \<in> set (snd (runTimerTick h env (fst (Run h env (e # pre) fs))))
           \<or> e' = RehydrateTick
             \<and> x \<in> set (snd (rehydrateTimerTick h env (fst (Run h env (e # pre) fs)))))"
        unfolding r by simp
      then show ?thesis by blast
    qed
  qed
qed

lemma Run_calls_due:
  assumes "x \<in> set (snd (Run h env events fs))"
  shows "\<exists>pre e post fs' c syncDir.
           events = pre @ e # post \<and> ContextDone \<notin> set pre \<and> fs' = fst (Run h env pre fs)
           \<and> SourceCommitAndDir h env fs' = (c, syncDir, None)
           \<and> (e = RunTick \<and> DoneCommit env fs' \<noteq> c
                \<and> (doneFile fs' \<noteq> Some c \<or> statDoneErr env \<noteq> None \<or> readDoneErr env \<noteq> None)
                \<and> (x = Hydrate c \<or> x = Render c \<or> x = Complete c)
              \<or> e = RehydrateTick \<and> hydratedErrorFile fs' \<noteq> None \<and> statErrorFileErr env = None
                \<and> (x = Render c \<or> x = Complete c))"
proof -
  from Run_calls [OF assms] obtain pre e post
    where p: "events = pre @ e # post" "ContextDone \<notin> set pre"
      "e = RunTick \<and> x \<in> set (snd (runTimerTick h env (fst (Run h env pre fs))))
       \<or> e = RehydrateTick \<and> x \<in> set (snd (rehydrateTimerTick h env (fst (Run h env pre fs))))"
    by blast
  from p(3) show ?thesis
  proof
    assume a: "e = RunTick \<and> x \<in> set (snd (runTimerTick h env (fst (Run h env pre fs))))"
    from runTimerTick_calls [of x h env "fst (Run h env pre fs)"] a obtain c syncDir
      where c: "SourceCommitAndDir h env (fst (Run h env pre fs)) = (c, syncDir, None)"
        "DoneCommit env (fst (Run h env pre fs)) \<noteq> c"
        "x = Hydrate c \<or> x = Render c \<or> x = Complete c"
      by blast
    from DoneCommit_recorded [OF c(2)] p(1,2) a c show ?thesis by blast
  next
    assume a: "e = RehydrateTick
       \<and> x \<in> set (snd (rehydrateTimerTick h env (fst (Run h env pre fs))))"
    from rehydrateTimerTick_calls [of x h env "fst (Run h env pre fs)"] a obtain c syncDir
      where c: "SourceCommitAndDir h env (fst (Run h env pre fs)) = (c, syncDir, None)"
        "hydratedErrorFile (fst (Run h env pre fs)) \<noteq> None" "statErrorFileErr env = None"
        "x = Render c \<or> x = Complete c"
      by blast
    from p(1,2) a c show ?thesis by blast
  qed
qed

text \<open>
  C7, as amended. The commit that a tick of the run timer compares with the source commit
  is the one \<open>DoneCommit\<close> reads: the content of the done file, and the empty string when
  the done file is missing or when \<open>os.Stat\<close> or \<open>ReadFile\<close> fails on it. A tick of the run
  timer calls \<open>hydrate\<close>, and renders, only for the commit that \<open>SourceCommitAndDir\<close>
  returns without error and only if \<open>DoneCommit\<close> differs from that commit, so only if the
  done file does not record it or cannot be read; when the done file records the current
  commit and can be read, the tick does nothing. A tick of the rehydrate timer renders only
  if the error file exists under the hydrated root (and can be checked); without the error
  file the tick does nothing. Hence every call that the loop of \<open>Run\<close> makes, whatever the
  events it receives, is made by a tick it received before the context was done, at the
  files the earlier ticks left, and one of the two conditions holds for these files.
\<close>

theorem timers_render_only_when_due:
  "(\<forall>x\<in>set (snd (runTimerTick h env fs)).
      \<exists>c syncDir. SourceCommitAndDir h env fs = (c, syncDir, None) \<and> DoneCommit env fs \<noteq> c
         \<and> (doneFile fs \<noteq> Some c \<or> statDoneErr env \<noteq> None \<or> readDoneErr env \<noteq> None)
         \<and> (x = Hydrate c \<or> x = Render c \<or> x = Complete c))
   \<and> DoneCommit env fs =
       (if statDoneErr env = None \<and> readDoneErr env = None
        then (case doneFile fs of None \<Rightarrow> [] | Some c \<Rightarrow> c) else [])
   \<and> ((\<exists>syncDir. SourceCommitAndDir h env fs = (DoneCommit env fs, syncDir, None)) \<longrightarrow>
        runTimerTick h env fs = (fs, []))
   \<and> (\<forall>c syncDir. SourceCommitAndDir h env fs = (c, syncDir, None) \<and> doneFile fs = Some c
          \<and> statDoneErr env = None \<and> readDoneErr env = None \<longrightarrow>
        runTimerTick h env fs = (fs, []))
   \<and> (\<forall>x\<in>set (snd (rehydrateTimerTick h env fs)).
      \<exists>c syncDir. SourceCommitAndDir h env fs = (c, syncDir, None)
         \<and> hydratedErrorFile fs \<noteq> None \<and> statErrorFileErr env = None
         \<and> (x = Render c \<or> x = Complete c))
   \<and> (hydratedErrorFile fs = None \<longrightarrow> rehydrateTimerTick h env fs = (fs, []))
   \<and> (\<forall>x\<in>set (snd (Run h env events fs)).
      \<exists>pre e post fs' c syncDir.
         events = pre @ e # post \<and> ContextDone \<notin> set pre \<and> fs' = fst (Run h env pre fs)
         \<and> SourceCommitAndDir h env fs' = (c, syncDir, None)
         \<and> (e = RunTick \<and> DoneCommit env fs' \<noteq> c
              \<and> (doneFile fs' \<noteq> Some c \<or> statDoneErr env \<noteq> None \<or> readDoneErr env \<noteq> None)
              \<and> (x = Hydrate c \<or> x = Render c \<or> x = Complete c)
            \<or> e = RehydrateTick \<and> hydratedErrorFile fs' \<noteq> None \<and> statErrorFileErr env = None
              \<and> (x = Render c \<or> x = Complete c)))"
proof (intro conjI ballI impI allI)
  fix x assume "x \<in> set (snd (Run h env events fs))"
  then show "\<exists>pre e post fs' c syncDir.
         events = pre @ e # post \<and> ContextDone \<notin> set pre \<and> fs' = fst (Run h env pre fs)
         \<and> SourceCommitAndDir h env fs' = (c, syncDir, None)
         \<and> (e = RunTick \<and> DoneCommit env fs' \<noteq> c
              \<and> (doneFile fs' \<noteq> Some c \<or> statDoneErr env \<noteq> None \<or> readDoneErr env \<noteq> None)
              \<and> (x = Hydrate c \<or> x = Render c \<or> x = Complete c)
            \<or> e = RehydrateTick \<and> hydratedErrorFile fs' \<noteq> None \<and> statErrorFileErr env = None
              \<and> (x = Render c \<or> x = Complete c))"
    by (rule Run_calls_due)
next
  fix x assume a: "x \<in> set (snd (runTimerTick h env fs))"
  from runTimerTick_calls [OF a] obtain c syncDir
    where c: "SourceCommitAndDir h env fs = (c, syncDir, None)" "DoneCommit env fs \<noteq> c"
      "x = Hydrate c \<or> x = Render c \<or> x = Complete c"
    by blast
  from DoneCommit_recorded [OF c(2)] c
  show "\<exists>c syncDir. SourceCommitAndDir h env fs = (c, syncDir, None) \<and> DoneCommit env fs \<noteq> c
         \<and> (doneFile fs \<noteq> Some c \<or> statDoneErr env \<noteq> None \<or> readDoneErr env \<noteq> None)
         \<and> (x = Hydrate c \<or> x = Render c \<or> x = Complete c)"
    by blast
next
  show "DoneCommit env fs =
       (if statDoneErr env = None \<and> readDoneErr env = None
        then (case doneFile fs of None \<Rightarrow> [] | Some c \<Rightarrow> c) else [])"
    by (rule DoneCommit_file)
next
  assume "\<exists>syncDir. SourceCommitAndDir h env fs = (DoneCommit env fs, syncDir, None)"
  then show "runTimerTick h env fs = (fs, [])"
    by (auto simp add: runTimerTick_def)
next
  fix c syncDir
  assume "SourceCommitAndDir h env fs = (c, syncDir, None) \<and> doneFile fs = Some c
          \<and> statDoneErr env = None \<and> readDoneErr env = None"
  then show "runTimerTick h env fs = (fs, [])"
    by (simp add: runTimerTick_def DoneCommit_def)
next
  fix x assume "x \<in> set (snd (rehydrateTimerTick h env fs))"
  then show "\<exists>c syncDir. SourceCommitAndDir h env fs = (c, syncDir, None)
         \<and> hydratedErrorFile fs \<noteq> None \<and> statErrorFileErr env = None
         \<and> (x = Render c \<or> x = Complete c)"
    by (rule rehydrateTimerTick_calls)
next
  assume "hydratedErrorFile fs = None"
  then show "rehydrateTimerTick h env fs = (fs, [])"
    by (auto simp add: rehydrateTimerTick_def rehydrateOnError_def split: prod.splits option.splits)
qed

theorem timers_render_only_when_due_witness:
  "SourceCommitAndDir exampleHydrator exampleHydratorEnv failedFS =
     (DoneCommit exampleHydratorEnv failedFS, ''abc/acme'', None)
   \<and> doneFile failedFS = Some ''abc''
   \<and> statDoneErr exampleHydratorEnv = None \<and> readDoneErr exampleHydratorEnv = None
   \<and> runTimerTick exampleHydrator exampleHydratorEnv failedFS = (failedFS, [])
   \<and> hydratedErrorFile exampleFS = None
   \<and> rehydrateTimerTick exampleHydrator exampleHydratorEnv exampleFS = (exampleFS, [])
   \<and> Hydrate ''abc'' \<in> set (snd (runTimerTick exampleHydrator exampleHydratorEnv exampleFS))
   \<and> DoneCommit exampleHydratorEnv exampleFS \<noteq> ''abc''
   \<and> doneFile exampleFS \<noteq> Some ''abc''
   \<and> Render ''abc'' \<in> set (snd (rehydrateTimerTick exampleHydrator exampleHydratorEnv failedFS))
   \<and> hydratedErrorFile failedFS \<noteq> None
   \<and> Hydrate ''abc'' \<in> set (snd (Run exampleHydrator exampleHydratorEnv
                                   [RehydrateTick, RunTick, ContextDone, RunTick] exampleFS))
   \<and> fst (Run exampleHydrator exampleHydratorEnv [RehydrateTick] exampleFS) = exampleFS"
proof -
  have a: "Hydrate ''abc'' \<in> set (snd (runTimerTick exampleHydrator exampleHydratorEnv exampleFS))"
    by (simp add: runTimerTick_def example_ticks split: prod.splits)
  have b: "Render ''abc'' \<in> set (snd (rehydrateTimerTick exampleHydrator exampleHydratorEnv failedFS))"
  proof -
    obtain he fs' calls
      where hy: "runHydrate exampleHydrator exampleHydratorEnv failedFS ''abc'' ''abc/acme'' =
                   (he, fs', calls)"
      by (cases "runHydrate exampleHydrator exampleHydratorEnv failedFS ''abc'' ''abc/acme''") auto
    from runHydrate_calls [of exampleHydrator exampleHydratorEnv failedFS "''abc''" "''abc/acme''"]
    have c: "calls = [Render ''abc'']" by (simp add: hy)
    have e: "statErrorFileErr exampleHydratorEnv = None"
      "hydratedErrorFile failedFS = Some ''render failed''"
      by (simp_all add: exampleHydratorEnv_def failedFS_def)
    show ?thesis
      by (simp add: rehydrateTimerTick_def rehydrateOnError_def example_ticks e hy c
          split: prod.splits)
  qed
  have c: "hydratedErrorFile failedFS \<noteq> None" "doneFile failedFS = Some ''abc''"
    "statDoneErr exampleHydratorEnv = None" "readDoneErr exampleHydratorEnv = None"
    "doneFile exampleFS \<noteq> Some ''abc''"
    by (simp_all add: failedFS_def exampleFS_def exampleHydratorEnv_def)
  have r: "rehydrateTimerTick exampleHydrator exampleHydratorEnv exampleFS = (exampleFS, [])"
    by (simp add: rehydrateTimerTick_def rehydrateOnError_def example_ticks)
  have d: "Hydrate ''abc'' \<in> set (snd (Run exampleHydrator exampleHydratorEnv
                                   [RehydrateTick, RunTick, ContextDone, RunTick] exampleFS))"
    using a by (simp add: r split: prod.splits)
  have f: "fst (Run exampleHydrator exampleHydratorEnv [RehydrateTick] exampleFS) = exampleFS"
    by (simp add: r)
  from timers_render_only_when_due [of exampleHydrator exampleHydratorEnv failedFS "[]"]
       timers_render_only_when_due [of exampleHydrator exampleHydratorEnv exampleFS
         "[RehydrateTick, RunTick, ContextDone, RunTick]"]
  show ?thesis using a b c d f r example_ticks by simp
qed

text \<open>
  The claim as stated fails where the done file cannot be read: the done file records the
  commit \<open>abc\<close>, the source is still at \<open>abc\<close>, and \<open>ReadFile\<close> fails on the done file, so
  that \<open>DoneCommit\<close> returns the empty string and the tick of the run timer hydrates and
  renders \<open>abc\<close> again.
\<close>

theorem done_commit_unreadable_counterexample:
  "doneFile renderedFS = Some ''abc''
   \<and> statDoneErr unreadableDoneEnv = None
   \<and> readDoneErr unreadableDoneEnv = Some ''input/output error''
   \<and> SourceCommitAndDir exampleHydrator unreadableDoneEnv renderedFS = (''abc'', ''abc/acme'', None)
   \<and> DoneCommit unreadableDoneEnv renderedFS = []
   \<and> snd (runTimerTick exampleHydrator unreadableDoneEnv renderedFS) =
       [Hydrate ''abc'', Render ''abc'', Complete ''abc'']"
  by (simp add: runTimerTick_def SourceCommitAndDir_def DoneCommit_def hydrate_def runHydrate_def
      ComputeCommit_def complete_def exportError_def
      unreadableDoneEnv_def renderedFS_def hydrator_example_defs GitSync_def split: prod.splits)
section \<open>C8: a commit that changes while it is rendered\<close>

text \<open>
  C8. When the renderer returns without error for the commit \<open>sourceCommit\<close> and the
  source link, evaluated afterwards, resolves to another commit, \<open>runHydrate\<close> returns a
  transient error and leaves the files as the renderer left them: it does not update the
  hydrated link, so that a link the renderer did not touch still points to the tree
  published before.
\<close>

theorem commit_changed_during_render_is_not_published:
  assumes "kustomizeBuild env syncDir sourceCommit fs = (None, rendered)"
    and "ComputeCommit rendered = Inr newCommit"
    and "newCommit \<noteq> sourceCommit"
  shows "(\<exists>msg. runHydrate h env fs sourceCommit syncDir =
                  (Some (TransientError msg), rendered, [Render sourceCommit]))
       \<and> hydratedLink (fst (snd (runHydrate h env fs sourceCommit syncDir))) = hydratedLink rendered
       \<and> (hydratedLink rendered = hydratedLink fs \<longrightarrow>
            hydratedLink (fst (snd (runHydrate h env fs sourceCommit syncDir))) = hydratedLink fs)"
  using assms by (auto simp add: runHydrate_def)

theorem commit_changed_during_render_is_not_published_witness:
  "kustomizeBuild exampleHydratorEnv ''abc/acme'' ''abc'' exampleFS =
     (None, exampleFS\<lparr>hydratedDirs := [''abc'', ''old''], sourceLink := Some ''def''\<rparr>)
   \<and> ComputeCommit (exampleFS\<lparr>hydratedDirs := [''abc'', ''old''], sourceLink := Some ''def''\<rparr>) =
       Inr ''def''
   \<and> ''def'' \<noteq> ''abc''
   \<and> hydratedLink (fst (snd (runHydrate exampleHydrator exampleHydratorEnv exampleFS ''abc''
        ''abc/acme''))) = Some ''old''
   \<and> hydratedLink exampleFS = Some ''old''"
proof -
  have k: "kustomizeBuild exampleHydratorEnv ''abc/acme'' ''abc'' exampleFS =
     (None, exampleFS\<lparr>hydratedDirs := [''abc'', ''old''], sourceLink := Some ''def''\<rparr>)"
    by (simp add: exampleHydratorEnv_def exampleFS_def)
  have c: "ComputeCommit (exampleFS\<lparr>hydratedDirs := [''abc'', ''old''], sourceLink := Some ''def''\<rparr>) =
       Inr ''def''"
    by (simp add: ComputeCommit_def)
  have n: "''def'' \<noteq> ''abc''" by simp
  have l: "hydratedLink exampleFS = Some ''old''" by (simp add: exampleFS_def)
  from commit_changed_during_render_is_not_published [OF k c n, of exampleHydrator]
  show ?thesis using k c l by simp
qed

section \<open>C9: updates of the notified annotation alone\<close>

lemma OnlyNotifiedAnnotation_iff:
  "OnlyNotifiedAnnotation diffSet \<longleftrightarrow>
     set diffSet - {ManagedFieldsPath} = {NotifiedAnnotationPath}"
proof -
  let ?changed = "filter (\<lambda>p. p \<noteq> ManagedFieldsPath) diffSet"
  have s: "set ?changed = set diffSet - {ManagedFieldsPath}" by auto
  have "OnlyNotifiedAnnotation diffSet \<longleftrightarrow>
          set ?changed \<noteq> {} \<and> set ?changed \<subseteq> {NotifiedAnnotationPath}"
    by (auto simp add: OnlyNotifiedAnnotation_def Let_def list_all_iff filter_empty_conv)
  also have "\<dots> \<longleftrightarrow> set ?changed = {NotifiedAnnotationPath}"
    by (simp only: subset_singleton_iff) auto
  finally show ?thesis unfolding s .
qed

text \<open>
  C9. \<open>OnlyNotifiedAnnotation\<close> holds of a field-diff set exactly when its paths other
  than \<open>.metadata.managedFields\<close> are the notified-annotation path alone; any other
  changed path in the set makes it false; and \<open>allowNotificationAnnotation\<close> lets an
  update pass only if the diff between the old and the new object is of that kind.
\<close>

theorem only_notified_annotation_bypasses:
  "(OnlyNotifiedAnnotation diffSet \<longleftrightarrow>
      set diffSet - {ManagedFieldsPath} = {NotifiedAnnotationPath})
   \<and> (\<forall>p\<in>set diffSet. p \<noteq> NotifiedAnnotationPath \<and> p \<noteq> ManagedFieldsPath \<longrightarrow>
         \<not> OnlyNotifiedAnnotation diffSet)
   \<and> (allowNotificationAnnotation req \<longrightarrow>
        (\<exists>d. fieldDiff req = Inr d \<and> set d - {ManagedFieldsPath} = {NotifiedAnnotationPath}))"
proof (intro conjI ballI impI)
  show "OnlyNotifiedAnnotation diffSet \<longleftrightarrow>
      set diffSet - {ManagedFieldsPath} = {NotifiedAnnotationPath}"
    by (rule OnlyNotifiedAnnotation_iff)
next
  fix p assume "p \<in> set diffSet" and "p \<noteq> NotifiedAnnotationPath \<and> p \<noteq> ManagedFieldsPath"
  then show "\<not> OnlyNotifiedAnnotation diffSet"
    unfolding OnlyNotifiedAnnotation_iff by blast
next
  assume "allowNotificationAnnotation req"
  then show "\<exists>d. fieldDiff req = Inr d \<and> set d - {ManagedFieldsPath} = {NotifiedAnnotationPath}"
    by (auto simp add: allowNotificationAnnotation_def OnlyNotifiedAnnotation_iff
        split: if_splits option.splits sum.splits)
qed

text \<open>The cases of \<open>TestOnlyNotifiedAnnotation\<close>, with the diff sets of its objects.\<close>

theorem only_notified_annotation_bypasses_witness:
  "OnlyNotifiedAnnotation [NotifiedAnnotationPath]
   \<and> OnlyNotifiedAnnotation [NotifiedAnnotationPath, ManagedFieldsPath]
   \<and> \<not> OnlyNotifiedAnnotation [''.metadata.annotations.hello'']
   \<and> \<not> OnlyNotifiedAnnotation [''.metadata.labels.hello'']
   \<and> \<not> OnlyNotifiedAnnotation [NotifiedAnnotationPath, ''.metadata.annotations.hello'']
   \<and> \<not> OnlyNotifiedAnnotation []
   \<and> allowNotificationAnnotation notifiedRequest
   \<and> fieldDiff notifiedRequest = Inr [NotifiedAnnotationPath, ManagedFieldsPath]"
proof -
  have a: "allowNotificationAnnotation notifiedRequest"
    by (simp add: allowNotificationAnnotation_def notifiedRequest_def OnlyNotifiedAnnotation_def
        NotifiedAnnotationPath_def ManagedFieldsPath_def)
  have f: "fieldDiff notifiedRequest = Inr [NotifiedAnnotationPath, ManagedFieldsPath]"
    by (simp add: notifiedRequest_def)
  have n: "NotifiedAnnotationPath \<noteq> ManagedFieldsPath"
    "''.metadata.annotations.hello'' \<noteq> ManagedFieldsPath"
    "''.metadata.annotations.hello'' \<noteq> NotifiedAnnotationPath"
    "''.metadata.labels.hello'' \<noteq> ManagedFieldsPath"
    "''.metadata.labels.hello'' \<noteq> NotifiedAnnotationPath"
    by (simp_all add: NotifiedAnnotationPath_def ManagedFieldsPath_def)
  from only_notified_annotation_bypasses [of "[NotifiedAnnotationPath]" notifiedRequest]
       only_notified_annotation_bypasses [of "[NotifiedAnnotationPath, ManagedFieldsPath]" notifiedRequest]
       only_notified_annotation_bypasses [of "[''.metadata.annotations.hello'']" notifiedRequest]
       only_notified_annotation_bypasses [of "[''.metadata.labels.hello'']" notifiedRequest]
       only_notified_annotation_bypasses [of "[NotifiedAnnotationPath, ''.metadata.annotations.hello'']" notifiedRequest]
       only_notified_annotation_bypasses [of "[]" notifiedRequest]
  show ?thesis using a f n by auto
qed

section \<open>C10: the first write of a status section is never skipped\<close>

text \<open>
  C10. With the object fetched and a positive denominator, the source, rendering and sync
  setters return without sending an update only if the section's \<open>LastUpdate\<close> fetched
  from the API server is not the zero time and the computed status equals the fetched one;
  when \<open>LastUpdate\<close> is still zero, the computed object is sent, whatever the comparison
  says.
\<close>

theorem first_status_write_is_never_skipped:
  assumes "0 < sint d" and "Get (client p) = Inr rs"
  shows
   "(snd (setSourceStatusWithRetries p src d) = [] \<longleftrightarrow>
       \<not> IsZero (LastUpdate (Source (Status rs)))
       \<and> cmp_Equal p (Status rs) (Status (sourceStatusMutation p src d rs)))
  \<and> (IsZero (LastUpdate (Source (Status rs))) \<longrightarrow>
       (\<exists>ws. snd (setSourceStatusWithRetries p src d) = sourceStatusMutation p src d rs # ws))
  \<and> (snd (setRenderingStatusWithRetires p ren d) = [] \<longleftrightarrow>
       \<not> IsZero (LastUpdate (Rendering (Status rs)))
       \<and> cmp_Equal p (Status rs) (Status (renderingStatusMutation p ren d rs)))
  \<and> (IsZero (LastUpdate (Rendering (Status rs))) \<longrightarrow>
       (\<exists>ws. snd (setRenderingStatusWithRetires p ren d) = renderingStatusMutation p ren d rs # ws))
  \<and> (snd (setSyncStatusWithRetries p syn d) = [] \<longleftrightarrow>
       \<not> IsZero (LastUpdate (Sync (Status rs)))
       \<and> cmp_Equal p (Status rs) (Status (syncStatusMutation p syn d rs)))
  \<and> (IsZero (LastUpdate (Sync (Status rs))) \<longrightarrow>
       (\<exists>ws. snd (setSyncStatusWithRetries p syn d) = syncStatusMutation p syn d rs # ws))"
  by (auto simp add: setSourceStatusWithRetries_attempt [OF assms]
      setRenderingStatusWithRetires_attempt [OF assms]
      setSyncStatusWithRetries_attempt [OF assms] Let_def split: option.splits)

theorem first_status_write_is_never_skipped_witness:
  "0 < sint (1 :: go_int)
   \<and> Get (client unchangedParser) = Inr exampleRootSync
   \<and> IsZero (LastUpdate (Source (Status exampleRootSync)))
   \<and> IsZero (LastUpdate (Rendering (Status exampleRootSync)))
   \<and> IsZero (LastUpdate (Sync (Status exampleRootSync)))
   \<and> cmp_Equal unchangedParser (Status exampleRootSync)
        (Status (syncStatusMutation unchangedParser exampleSyncStatus 1 exampleRootSync))
   \<and> snd (setSourceStatusWithRetries unchangedParser failedSourceStatus 1) \<noteq> []
   \<and> snd (setRenderingStatusWithRetires unchangedParser failedRenderingStatus 1) \<noteq> []
   \<and> snd (setSyncStatusWithRetries unchangedParser exampleSyncStatus 1) \<noteq> []"
proof -
  have p: "0 < sint (1 :: go_int)" by simp
  have g: "Get (client unchangedParser) = Inr exampleRootSync"
    by (simp add: unchangedParser_def exampleParser_def)
  have c: "cmp_Equal unchangedParser (Status exampleRootSync)
        (Status (syncStatusMutation unchangedParser exampleSyncStatus 1 exampleRootSync))"
    by (simp add: unchangedParser_def)
  from first_status_write_is_never_skipped [OF p g,
      of failedSourceStatus failedRenderingStatus exampleSyncStatus]
  show ?thesis using example_first_write p g c by simp
qed

end
